theory Spec2Isabelle
  imports Complex_Main "HOL-Library.Word" "HOL-Library.Sublist" "HOL-Library.Multiset"
begin

section \<open>JavaScript strings and values\<close>

text \<open>
  A JavaScript string is a sequence of UTF-16 code units, and \<open>length\<close>, \<open>trim\<close>,
  \<open>replace\<close>, \<open>substring\<close>, \<open>split\<close> and \<open>includes\<close> all work on code units. A string
  literal of the source is written \<open>js ''...''\<close>.
\<close>

type_synonym jschar = "16 word"
type_synonym jstring = "jschar list"

definition js :: "string \<Rightarrow> jstring" where
  "js s = map of_char s"

text \<open>
  The values a parsed JSON body, a query parameter or a document field can hold, plus
  \<open>undefined\<close> for a property that is not there. A number is a real number (the doubles
  are among them) or an infinity, which \<open>JSON.parse\<close> gives for a literal out of range;
  \<open>NaN\<close> is no JSON value. An object is the list of its own properties; its prototype
  is \<open>Object.prototype\<close>, and no property of it is a function.
\<close>

datatype jsnum = Finite real | PosInfinity | NegInfinity

datatype jsval =
    JUndefined
  | JNull
  | JBool bool
  | JNum jsnum
  | JStr jstring
  | JArr "jsval list"
  | JObj "(jstring \<times> jsval) list"

text \<open>
  What the JavaScript engine supplies and this development does not compute is a
  parameter of every function that uses it: the decimal rendering of a finite number
  (\<open>Number.prototype.toString\<close>), the parser of date strings (\<open>None\<close>: not a date), the
  offset in milliseconds of the local time zone at an instant, and the rendering of a
  date before the year 1.
\<close>

record engine =
  numberToString :: "real \<Rightarrow> jstring"
  dateParse :: "jstring \<Rightarrow> int option"
  localOffset :: "int \<Rightarrow> int"
  earlyDate :: "int \<Rightarrow> jstring"

text \<open>\<open>!input\<close> is \<open>\<not> truthy input\<close>.\<close>

fun truthy :: "jsval \<Rightarrow> bool" where
  "truthy JUndefined = False"
| "truthy JNull = False"
| "truthy (JBool b) = b"
| "truthy (JNum (Finite r)) = (r \<noteq> 0)"
| "truthy (JNum n) = True"
| "truthy (JStr s) = (s \<noteq> [])"
| "truthy (JArr xs) = True"
| "truthy (JObj kvs) = True"

text \<open>\<open>typeof input === 'string'\<close>.\<close>

fun isString :: "jsval \<Rightarrow> bool" where
  "isString (JStr s) = True"
| "isString v = False"

fun nullish :: "jsval \<Rightarrow> bool" where
  "nullish JUndefined = True"
| "nullish JNull = True"
| "nullish v = False"

text \<open>
  Decimal digits of a natural number, most significant first, and the rendering of an
  integer. The engine renders an integer below \<open>2^53\<close> in magnitude this way; it is
  used for the whole minutes, hours and days of a relative time, which are below 60.
\<close>

fun digits :: "nat \<Rightarrow> jstring" where
  "digits n = (if n < 10 then [of_nat (48 + n)]
               else digits (n div 10) @ [of_nat (48 + n mod 10)])"

declare digits.simps [simp del]

definition integerToString :: "int \<Rightarrow> jstring" where
  "integerToString i = (if i < 0 then 0x2D # digits (nat (- i)) else digits (nat i))"

fun NumberToString :: "engine \<Rightarrow> jsnum \<Rightarrow> jstring" where
  "NumberToString E (Finite r) = numberToString E r"
| "NumberToString E PosInfinity = js ''Infinity''"
| "NumberToString E NegInfinity = js ''-Infinity''"

text \<open>\<open>Array.prototype.join\<close> with separator \<open>sep\<close>.\<close>

fun join :: "jstring \<Rightarrow> jstring list \<Rightarrow> jstring" where
  "join sep [] = []"
| "join sep [x] = x"
| "join sep (x # y # ys) = x @ sep @ join sep (y # ys)"

text \<open>
  \<open>String(input)\<close>, as the thrown TypeError's message (\<open>Inl\<close>) or the string (\<open>Inr\<close>).
  An array is its elements joined by commas, \<open>null\<close> and \<open>undefined\<close> elements giving
  the empty string, and the first element that throws makes the array throw. An object
  with no own \<open>toString\<close> property is \<open>[object Object]\<close>; with one, which is never a
  function, the conversion finds no primitive value and throws.
\<close>

definition cannotConvertMessage :: jstring where
  "cannotConvertMessage = js ''Cannot convert object to primitive value''"

fun ToString :: "engine \<Rightarrow> jsval \<Rightarrow> jstring + jstring"
  and ToStrings :: "engine \<Rightarrow> jsval list \<Rightarrow> jstring + jstring list" where
  "ToString E JUndefined = Inr (js ''undefined'')"
| "ToString E JNull = Inr (js ''null'')"
| "ToString E (JBool b) = Inr (if b then js ''true'' else js ''false'')"
| "ToString E (JNum n) = Inr (NumberToString E n)"
| "ToString E (JStr s) = Inr s"
| "ToString E (JArr xs) =
     (case ToStrings E xs of Inl m \<Rightarrow> Inl m | Inr ss \<Rightarrow> Inr (join (js '','') ss))"
| "ToString E (JObj kvs) =
     (if map_of kvs (js ''toString'') \<noteq> None then Inl cannotConvertMessage
      else Inr (js ''[object Object]''))"
| "ToStrings E [] = Inr []"
| "ToStrings E (v # vs) =
     (case (if nullish v then Inr [] else ToString E v) of
        Inl m \<Rightarrow> Inl m
      | Inr s \<Rightarrow> (case ToStrings E vs of Inl m \<Rightarrow> Inl m | Inr ss \<Rightarrow> Inr (s # ss)))"

text \<open>Running the next step on a result, or passing the thrown error on.\<close>

definition andThen :: "'e + 'a \<Rightarrow> ('a \<Rightarrow> 'e + 'b) \<Rightarrow> 'e + 'b" where
  "andThen r f = (case r of Inl e \<Rightarrow> Inl e | Inr a \<Rightarrow> f a)"

text \<open>\<open>String.prototype.split\<close> at a one-character separator: never an empty array.\<close>

fun split :: "jschar \<Rightarrow> jstring \<Rightarrow> jstring list" where
  "split c [] = [[]]"
| "split c (x # xs) =
     (if x = c then [] # split c xs
      else (case split c xs of [] \<Rightarrow> [[x]] | p # ps \<Rightarrow> (x # p) # ps))"

text \<open>\<open>String.prototype.includes\<close>, through \<open>startsWith\<close> at every position.\<close>

fun startsWith :: "jstring \<Rightarrow> jstring \<Rightarrow> bool" where
  "startsWith s [] = True"
| "startsWith [] (y # ys) = False"
| "startsWith (x # xs) (y # ys) = (x = y \<and> startsWith xs ys)"

fun includesStr :: "jstring \<Rightarrow> jstring \<Rightarrow> bool" where
  "includesStr [] t = (t = [])"
| "includesStr (x # xs) t = (startsWith (x # xs) t \<or> includesStr xs t)"

section \<open>The sanitizer\<close>

text \<open>
  The white space and line terminator code units that \<open>String.prototype.trim\<close> removes:
  TAB, LF, VT, FF, CR, SP, NBSP, U+1680, U+2000 to U+200A, U+2028, U+2029, U+202F,
  U+205F, U+3000 and U+FEFF.
\<close>

definition isWhiteSpace :: "jschar \<Rightarrow> bool" where
  "isWhiteSpace c =
     (c = 0x9 \<or> c = 0xA \<or> c = 0xB \<or> c = 0xC \<or> c = 0xD \<or> c = 0x20 \<or> c = 0xA0 \<or>
      c = 0x1680 \<or> (0x2000 \<le> c \<and> c \<le> 0x200A) \<or> c = 0x2028 \<or> c = 0x2029 \<or>
      c = 0x202F \<or> c = 0x205F \<or> c = 0x3000 \<or> c = 0xFEFF)"

definition trim :: "jstring \<Rightarrow> jstring" where
  "trim s = rev (dropWhile isWhiteSpace (rev (dropWhile isWhiteSpace s)))"

text \<open>\<open>.replace(/[<>]/g, '')\<close>.\<close>

definition removeAngleBrackets :: "jstring \<Rightarrow> jstring" where
  "removeAngleBrackets s = filter (\<lambda>c. c \<noteq> 0x3C \<and> c \<noteq> 0x3E) s"

text \<open>\<open>.substring(0, n)\<close>.\<close>

definition substring0 :: "nat \<Rightarrow> jstring \<Rightarrow> jstring" where
  "substring0 n s = take n s"

text \<open>
  \<open>sanitizeString\<close> is written twice in the source with the same body, once beside the
  recipes handler (limit 10000) and once beside the comments handler (limit 1000). It
  returns a string (\<open>Inr\<close>), or throws what \<open>String(input)\<close> throws (\<open>Inl\<close>).
\<close>

definition sanitizeString_recipes :: "engine \<Rightarrow> jsval \<Rightarrow> jstring + jstring" where
  "sanitizeString_recipes E input =
     (if \<not> truthy input then Inr []
      else case input of
             JStr s \<Rightarrow> Inr (substring0 10000 (removeAngleBrackets (trim s)))
           | _ \<Rightarrow> ToString E input)"

definition sanitizeString_comments :: "engine \<Rightarrow> jsval \<Rightarrow> jstring + jstring" where
  "sanitizeString_comments E input =
     (if \<not> truthy input then Inr []
      else case input of
             JStr s \<Rightarrow> Inr (substring0 1000 (removeAngleBrackets (trim s)))
           | _ \<Rightarrow> ToString E input)"

text \<open>The pipeline applied to a string: trim, strip, truncate.\<close>

definition pipeline :: "nat \<Rightarrow> jstring \<Rightarrow> jstring" where
  "pipeline n s = substring0 n (removeAngleBrackets (trim s))"

section \<open>Requests, responses and the document store\<close>

text \<open>
  The response object \<open>res\<close>: \<open>setHeader\<close> records a header, \<open>res.status(c).json(b)\<close>
  fixes the status code and the JSON body. A handler starts from \<open>newResponse\<close>.
\<close>

record response =
  statusCode :: nat
  headers :: "(jstring \<times> jstring) list"
  body :: jsval

definition newResponse :: response where
  "newResponse = \<lparr>statusCode = 200, headers = [], body = JUndefined\<rparr>"

definition setHeader :: "jstring \<Rightarrow> jstring \<Rightarrow> response \<Rightarrow> response" where
  "setHeader k v res = res\<lparr>headers := filter (\<lambda>h. fst h \<noteq> k) (headers res) @ [(k, v)]\<rparr>"

definition respond :: "nat \<Rightarrow> jsval \<Rightarrow> response \<Rightarrow> response" where
  "respond c b res = res\<lparr>statusCode := c, body := b\<rparr>"

text \<open>
  The request as the hosting framework hands it over: the method, the raw URL, the parsed
  query parameters and the parsed JSON body (\<open>JUndefined\<close> when there is none).
\<close>

record request =
  httpMethod :: jstring
  url :: jstring
  query :: "(jstring \<times> jsval) list"
  reqBody :: jsval

text \<open>
  Reading a property: \<open>getProp v k\<close> is \<open>v.k\<close> for a value that is neither \<open>undefined\<close> nor
  \<open>null\<close>; on those two the read throws a TypeError, whose message (the engine's) is
  \<open>typeErrorMessage\<close>. The handlers read none of the built-in properties of strings and
  arrays, so a primitive or an array gives \<open>undefined\<close>.
\<close>

fun getProp :: "jsval \<Rightarrow> jstring \<Rightarrow> jsval" where
  "getProp (JObj kvs) k = (case map_of kvs k of None \<Rightarrow> JUndefined | Some v \<Rightarrow> v)"
| "getProp v k = JUndefined"

definition typeErrorMessage :: "jsval \<Rightarrow> jstring \<Rightarrow> jstring" where
  "typeErrorMessage v k =
     js ''Cannot read properties of '' @ (if v = JNull then js ''null'' else js ''undefined'')
       @ js '' (reading '' @ [0x27] @ k @ [0x27] @ js '')''"

text \<open>
  Persisted documents. Both kinds carry the server-assigned \<open>createdAt\<close>; a timestamp is
  the number of microseconds since the epoch, and is serialised as an object of seconds
  and nanoseconds.
\<close>

type_synonym timestamp = int

record stamped =
  createdAt :: timestamp

record recipe_doc = stamped +
  name :: jstring
  category :: jstring
  prepTime :: jstring
  cookTime :: jstring
  ingredients :: jstring
  instructions :: jstring
  recipeNotes :: jstring
  updatedAt :: timestamp

record comment_doc = stamped +
  recipeId :: jstring
  username :: jstring
  comment :: jstring

definition timestampJson :: "timestamp \<Rightarrow> jsval" where
  "timestampJson t =
     JObj [(js ''_seconds'', JNum (Finite (of_int (t div 1000000)))),
           (js ''_nanoseconds'', JNum (Finite (of_int ((t mod 1000000) * 1000))))]"

text \<open>\<open>{ id: doc.id, ...doc.data() }\<close>.\<close>

definition recipeJson :: "jstring \<times> recipe_doc \<Rightarrow> jsval" where
  "recipeJson d =
     JObj [(js ''id'', JStr (fst d)),
           (js ''name'', JStr (name (snd d))),
           (js ''category'', JStr (category (snd d))),
           (js ''prepTime'', JStr (prepTime (snd d))),
           (js ''cookTime'', JStr (cookTime (snd d))),
           (js ''ingredients'', JStr (ingredients (snd d))),
           (js ''instructions'', JStr (instructions (snd d))),
           (js ''notes'', JStr (recipeNotes (snd d))),
           (js ''createdAt'', timestampJson (createdAt (snd d))),
           (js ''updatedAt'', timestampJson (updatedAt (snd d)))]"

definition commentJson :: "jstring \<times> comment_doc \<Rightarrow> jsval" where
  "commentJson d =
     JObj [(js ''id'', JStr (fst d)),
           (js ''recipeId'', JStr (recipeId (snd d))),
           (js ''username'', JStr (username (snd d))),
           (js ''comment'', JStr (comment (snd d))),
           (js ''createdAt'', timestampJson (createdAt (snd d)))]"

text \<open>
  The managed document database, as far as the handlers use it: two flat collections of
  documents keyed by id, in insertion order. What the database decides by itself on a
  write is an input of the model: the generated id and the server's clock. Transport
  failures of the database are not modelled.
\<close>

record store =
  recipes :: "(jstring \<times> recipe_doc) list"
  comments :: "(jstring \<times> comment_doc) list"

record env =
  autoId :: jstring
  serverTimestamp :: timestamp

text \<open>
  \<open>db.collection('recipes').doc(id)\<close>, as the database client resolves it. The id must
  be a non-empty string without \<open>//\<close>. It is split at the slashes and the empty
  segments are dropped, so \<open>r1/\<close> is the document \<open>r1\<close>. An even number of segments
  names a collection and is refused; three segments or more name a document of a nested
  collection, which the flat store does not hold. The three refusals throw, each with
  its message.
\<close>

definition invalidPathMessage :: jstring where
  "invalidPathMessage =
     js ''Value for argument '' @ [0x22] @ js ''documentPath'' @ [0x22]
       @ js '' is not a valid resource path. Path must be a non-empty string.''"

definition doubleSlashMessage :: jstring where
  "doubleSlashMessage =
     js ''Value for argument '' @ [0x22] @ js ''documentPath'' @ [0x22]
       @ js '' is not a valid resource path. Paths must not contain //.''"

definition notDocumentMessage :: "jstring \<Rightarrow> jstring" where
  "notDocumentMessage s =
     js ''Value for argument '' @ [0x22] @ js ''documentPath'' @ [0x22]
       @ js '' must point to a document, but was '' @ [0x22] @ s @ [0x22]
       @ js ''. Your path does not contain an even number of components.''"

definition pathSegments :: "jstring \<Rightarrow> jstring list" where
  "pathSegments s = filter (\<lambda>p. p \<noteq> []) (split 0x2F s)"

text \<open>
  \<open>db.collection('recipes').doc(id).get()\<close>: the thrown message, or the snapshot: the
  document's id and data when it exists, \<open>None\<close> when it does not.
\<close>

definition recipeDocGet :: "store \<Rightarrow> jsval \<Rightarrow> jstring + (jstring \<times> recipe_doc) option" where
  "recipeDocGet st rid =
     (case rid of
        JStr s \<Rightarrow>
          if s = [] then Inl invalidPathMessage
          else if includesStr s (js ''//'') then Inl doubleSlashMessage
          else (case pathSegments s of
                  [k] \<Rightarrow> Inr (map_option (Pair k) (map_of (recipes st) k))
                | segments \<Rightarrow>
                    if even (length segments) then Inl (notDocumentMessage s) else Inr None)
      | _ \<Rightarrow> Inl invalidPathMessage)"

text \<open>\<open>.orderBy('createdAt', 'desc')\<close>: newest first, ties in the store's order.\<close>

definition orderByCreatedAtDesc :: "(jstring \<times> 'a stamped_scheme) list \<Rightarrow> (jstring \<times> 'a stamped_scheme) list" where
  "orderByCreatedAtDesc ds = sort_key (\<lambda>d. - createdAt (snd d)) ds"

text \<open>
  \<open>.limit(n)\<close>: the argument must be an integer, so \<open>NaN\<close> (\<open>None\<close>) is refused by the
  client with this message; a negative limit is refused by the database, whose own
  message is not modelled.
\<close>

definition invalidLimitMessage :: jstring where
  "invalidLimitMessage = js ''Value for argument '' @ [0x22] @ js ''limit'' @ [0x22]
       @ js '' is not a valid integer.''"

definition limitQuery :: "int option \<Rightarrow> 'a list \<Rightarrow> jstring + 'a list" where
  "limitQuery n ds =
     (case n of
        None \<Rightarrow> Inl invalidLimitMessage
      | Some k \<Rightarrow> if k < 0 then Inl invalidLimitMessage else Inr (take (nat k) ds))"

section \<open>The recipes handler\<close>

definition corsHeaders_recipes :: "(jstring \<times> jstring) list" where
  "corsHeaders_recipes =
     [(js ''Access-Control-Allow-Origin'', js ''*''),
      (js ''Access-Control-Allow-Methods'', js ''GET, POST, PUT, DELETE, OPTIONS''),
      (js ''Access-Control-Allow-Headers'', js ''Content-Type'')]"

text \<open>\<open>Object.entries(corsHeaders).forEach(([key, value]) => res.setHeader(key, value))\<close>.\<close>

definition setHeaders :: "(jstring \<times> jstring) list \<Rightarrow> response \<Rightarrow> response" where
  "setHeaders hs res = fold (\<lambda>h. setHeader (fst h) (snd h)) hs res"

text \<open>
  The recipe id of the URL: the last segment of the path, unless it is empty or
  \<open>recipes\<close> (\<open>None\<close> is the source's \<open>null\<close>).
\<close>

definition lastPart :: "jstring \<Rightarrow> jstring" where
  "lastPart u = last (split 0x2F (hd (split 0x3F u)))"

definition urlRecipeId :: "jstring \<Rightarrow> jstring option" where
  "urlRecipeId u =
     (if lastPart u \<noteq> [] \<and> lastPart u \<noteq> js ''recipes'' then Some (lastPart u) else None)"

text \<open>
  \<open>parseInt(v)\<close> with no radix: the argument is converted to a string, which may throw;
  leading white space is skipped, a sign is read, then a \<open>0x\<close> prefix selects base 16;
  the longest run of digits is the value, and \<open>None\<close> is \<open>NaN\<close> when there is no digit.
  The value is the exact integer; the engine rounds one beyond \<open>2^53\<close> to a double.
\<close>

definition digitValue :: "jschar \<Rightarrow> nat option" where
  "digitValue c =
     (if 0x30 \<le> c \<and> c \<le> 0x39 then Some (unat c - 0x30)
      else if 0x61 \<le> c \<and> c \<le> 0x7A then Some (unat c - 0x61 + 10)
      else if 0x41 \<le> c \<and> c \<le> 0x5A then Some (unat c - 0x41 + 10)
      else None)"

definition isDigitIn :: "nat \<Rightarrow> jschar \<Rightarrow> bool" where
  "isDigitIn radix c = (case digitValue c of None \<Rightarrow> False | Some d \<Rightarrow> d < radix)"

definition digitsValue :: "nat \<Rightarrow> jstring \<Rightarrow> nat" where
  "digitsValue radix ds =
     foldl (\<lambda>acc c. case digitValue c of None \<Rightarrow> acc | Some d \<Rightarrow> acc * radix + d) 0 ds"

definition parseDigits :: "nat \<Rightarrow> jstring \<Rightarrow> nat option" where
  "parseDigits radix s =
     (let ds = takeWhile (isDigitIn radix) s
      in if ds = [] then None else Some (digitsValue radix ds))"

definition parseUnsigned :: "jstring \<Rightarrow> nat option" where
  "parseUnsigned s =
     (if take 2 s = js ''0x'' \<or> take 2 s = js ''0X'' then parseDigits 16 (drop 2 s)
      else parseDigits 10 s)"

definition parseIntString :: "jstring \<Rightarrow> int option" where
  "parseIntString t =
     (let s = dropWhile isWhiteSpace t
      in case s of
           [] \<Rightarrow> None
         | c # cs \<Rightarrow>
             if c = 0x2D then map_option (\<lambda>n. - int n) (parseUnsigned cs)
             else if c = 0x2B then map_option int (parseUnsigned cs)
             else map_option int (parseUnsigned s))"

definition parseInt :: "engine \<Rightarrow> jsval \<Rightarrow> jstring + int option" where
  "parseInt E v = andThen (ToString E v) (\<lambda>t. Inr (parseIntString t))"

definition errorBody :: "string \<Rightarrow> jstring \<Rightarrow> jsval" where
  "errorBody e msg = JObj [(js ''error'', JStr (js e)), (js ''message'', JStr msg)]"

definition recipeListBody :: "(jstring \<times> recipe_doc) list \<Rightarrow> jsval" where
  "recipeListBody ds =
     JObj [(js ''success'', JBool True),
           (js ''count'', JNum (Finite (real (length ds)))),
           (js ''recipes'', JArr (map recipeJson ds))]"

definition getAllRecipes :: "store \<Rightarrow> response \<Rightarrow> response \<times> store" where
  "getAllRecipes st res =
     (respond 200 (recipeListBody (orderByCreatedAtDesc (recipes st))) res, st)"

definition getRecentRecipes :: "store \<Rightarrow> response \<Rightarrow> int option \<Rightarrow> response \<times> store" where
  "getRecentRecipes st res recent =
     (case limitQuery recent (orderByCreatedAtDesc (recipes st)) of
        Inl msg \<Rightarrow> (respond 500 (errorBody ''Failed to retrieve recent recipes'' msg) res, st)
      | Inr ds \<Rightarrow> (respond 200 (recipeListBody ds) res, st))"

definition recipeNotFoundBody :: "jsval \<Rightarrow> jsval" where
  "recipeNotFoundBody rid =
     JObj [(js ''error'', JStr (js ''Recipe not found'')), (js ''recipeId'', rid)]"

definition getRecipeById :: "store \<Rightarrow> response \<Rightarrow> jstring \<Rightarrow> response \<times> store" where
  "getRecipeById st res rid =
     (case recipeDocGet st (JStr rid) of
        Inl msg \<Rightarrow> (respond 500 (errorBody ''Failed to retrieve recipe'' msg) res, st)
      | Inr None \<Rightarrow> (respond 404 (recipeNotFoundBody (JStr rid)) res, st)
      | Inr (Some doc) \<Rightarrow>
          (respond 200 (JObj [(js ''success'', JBool True), (js ''recipe'', recipeJson doc)])
             res, st))"

text \<open>\<open>a || b\<close> on strings.\<close>

definition orElse :: "jstring \<Rightarrow> jstring \<Rightarrow> jstring" where
  "orElse a b = (if a \<noteq> [] then a else b)"

definition missingRecipeFields :: jsval where
  "missingRecipeFields =
     JObj [(js ''error'', JStr (js ''Missing required fields'')),
           (js ''required'',
            JArr [JStr (js ''name''), JStr (js ''ingredients''), JStr (js ''instructions'')])]"

text \<open>
  The object literal \<open>newRecipe\<close>: its fields are sanitized in the order they are
  written, and the first \<open>sanitizeString\<close> that throws ends the evaluation.
\<close>

definition newRecipeOf :: "engine \<Rightarrow> env \<Rightarrow> jsval \<Rightarrow> jstring + recipe_doc" where
  "newRecipeOf E e recipeData =
     andThen (sanitizeString_recipes E (getProp recipeData (js ''name''))) (\<lambda>n.
     andThen (sanitizeString_recipes E (getProp recipeData (js ''category''))) (\<lambda>c.
     andThen (sanitizeString_recipes E (getProp recipeData (js ''prepTime''))) (\<lambda>p.
     andThen (sanitizeString_recipes E (getProp recipeData (js ''cookTime''))) (\<lambda>k.
     andThen (sanitizeString_recipes E (getProp recipeData (js ''ingredients''))) (\<lambda>i.
     andThen (sanitizeString_recipes E (getProp recipeData (js ''instructions''))) (\<lambda>s.
     andThen (sanitizeString_recipes E (getProp recipeData (js ''notes''))) (\<lambda>t.
       Inr \<lparr>createdAt = serverTimestamp e,
            name = n,
            category = orElse c (js ''uncategorized''),
            prepTime = orElse p [],
            cookTime = orElse k [],
            ingredients = i,
            instructions = s,
            recipeNotes = orElse t [],
            updatedAt = serverTimestamp e\<rparr>)))))))"

definition createRecipe ::
  "engine \<Rightarrow> env \<Rightarrow> store \<Rightarrow> request \<Rightarrow> response \<Rightarrow> response \<times> store" where
  "createRecipe E e st req res =
     (let recipeData = reqBody req in
      if nullish recipeData then
        (respond 500
           (errorBody ''Failed to create recipe'' (typeErrorMessage recipeData (js ''name''))) res,
         st)
      else if \<not> truthy (getProp recipeData (js ''name''))
            \<or> \<not> truthy (getProp recipeData (js ''ingredients''))
            \<or> \<not> truthy (getProp recipeData (js ''instructions'')) then
        (respond 400 missingRecipeFields res, st)
      else
        case newRecipeOf E e recipeData of
          Inl msg \<Rightarrow> (respond 500 (errorBody ''Failed to create recipe'' msg) res, st)
        | Inr newRecipe \<Rightarrow>
            (respond 201
               (JObj [(js ''success'', JBool True),
                      (js ''message'', JStr (js ''Recipe created successfully'')),
                      (js ''recipe'', recipeJson (autoId e, newRecipe))]) res,
             st\<lparr>recipes := recipes st @ [(autoId e, newRecipe)]\<rparr>))"

definition deleteRecipe :: "store \<Rightarrow> response \<Rightarrow> jstring \<Rightarrow> response \<times> store" where
  "deleteRecipe st res rid =
     (case recipeDocGet st (JStr rid) of
        Inl msg \<Rightarrow> (respond 500 (errorBody ''Failed to delete recipe'' msg) res, st)
      | Inr None \<Rightarrow> (respond 404 (recipeNotFoundBody (JStr rid)) res, st)
      | Inr (Some doc) \<Rightarrow>
          (respond 200
             (JObj [(js ''success'', JBool True),
                    (js ''message'', JStr (js ''Recipe deleted successfully'')),
                    (js ''recipeId'', JStr rid)]) res,
           st\<lparr>recipes := filter (\<lambda>d. fst d \<noteq> fst doc) (recipes st)\<rparr>))"

text \<open>\<open>query.recent\<close> and the like: the parameter, or \<open>undefined\<close>.\<close>

definition queryParam :: "request \<Rightarrow> jstring \<Rightarrow> jsval" where
  "queryParam req k = (case map_of (query req) k of None \<Rightarrow> JUndefined | Some v \<Rightarrow> v)"

text \<open>
  The exported handler of the recipes endpoint. The preflight answer is sent before the
  cross-origin headers are set. Every route function catches what it throws; the
  handler's own \<open>catch\<close> is entered only when \<open>parseInt(query.recent)\<close> throws.
\<close>

definition recipesHandler :: "engine \<Rightarrow> env \<Rightarrow> store \<Rightarrow> request \<Rightarrow> response \<times> store" where
  "recipesHandler E e st req =
     (if httpMethod req = js ''OPTIONS'' then
        (respond 200 (JObj [(js ''ok'', JBool True)]) newResponse, st)
      else
        let res = setHeaders corsHeaders_recipes newResponse;
            recipeId = urlRecipeId (url req)
        in if httpMethod req = js ''GET'' \<and> truthy (queryParam req (js ''recent'')) then
             (case parseInt E (queryParam req (js ''recent'')) of
                Inl msg \<Rightarrow> (respond 500 (errorBody ''Internal server error'' msg) res, st)
              | Inr recent \<Rightarrow> getRecentRecipes st res recent)
           else if httpMethod req = js ''GET'' \<and> recipeId \<noteq> None then
             getRecipeById st res (the recipeId)
           else if httpMethod req = js ''GET'' then
             getAllRecipes st res
           else if httpMethod req = js ''POST'' then
             createRecipe E e st req res
           else if httpMethod req = js ''DELETE'' \<and> recipeId \<noteq> None then
             deleteRecipe st res (the recipeId)
           else
             (respond 405
                (JObj [(js ''error'', JStr (js ''Method not allowed'')),
                       (js ''allowedMethods'',
                        JArr [JStr (js ''GET''), JStr (js ''POST''), JStr (js ''DELETE'')])])
                res,
              st))"

section \<open>The comments handler\<close>

definition corsHeaders_comments :: "(jstring \<times> jstring) list" where
  "corsHeaders_comments =
     [(js ''Access-Control-Allow-Origin'', js ''*''),
      (js ''Access-Control-Allow-Methods'', js ''GET, POST, OPTIONS''),
      (js ''Access-Control-Allow-Headers'', js ''Content-Type'')]"

text \<open>
  \<open>.where('recipeId', '==', recipeId)\<close>: the stored \<open>recipeId\<close> is a string, so only a
  string argument can be equal to it.
\<close>

definition getComments :: "store \<Rightarrow> response \<Rightarrow> jsval \<Rightarrow> response \<times> store" where
  "getComments st res rid =
     (if \<not> truthy rid then
        (respond 400
           (errorBody ''Recipe ID is required''
              (js ''Please provide recipeId as a query parameter'')) res,
         st)
      else
        let cs = orderByCreatedAtDesc (filter (\<lambda>d. JStr (recipeId (snd d)) = rid) (comments st))
        in (respond 200
              (JObj [(js ''success'', JBool True),
                     (js ''count'', JNum (Finite (real (length cs)))),
                     (js ''recipeId'', rid),
                     (js ''comments'', JArr (map commentJson cs))]) res,
            st))"

definition missingCommentFields :: jsval where
  "missingCommentFields =
     JObj [(js ''error'', JStr (js ''Missing required fields'')),
           (js ''required'',
            JArr [JStr (js ''recipeId''), JStr (js ''username''), JStr (js ''comment'')])]"

definition invalidCommentLength :: jsval where
  "invalidCommentLength =
     errorBody ''Invalid comment length'' (js ''Comment must be between 1 and 1000 characters'')"

definition invalidUsernameLength :: jsval where
  "invalidUsernameLength =
     errorBody ''Invalid username length'' (js ''Username must be between 1 and 100 characters'')"

text \<open>
  The object literal \<open>newComment\<close>: \<open>recipeId\<close>, \<open>username\<close> and \<open>comment\<close> are sanitized
  in this order, and the first \<open>sanitizeString\<close> that throws ends the evaluation.
\<close>

definition newCommentOf :: "engine \<Rightarrow> env \<Rightarrow> jsval \<Rightarrow> jstring + comment_doc" where
  "newCommentOf E e commentData =
     andThen (sanitizeString_comments E (getProp commentData (js ''recipeId''))) (\<lambda>r.
     andThen (sanitizeString_comments E (getProp commentData (js ''username''))) (\<lambda>u.
     andThen (sanitizeString_comments E (getProp commentData (js ''comment''))) (\<lambda>c.
       Inr \<lparr>createdAt = serverTimestamp e, recipeId = r, username = u, comment = c\<rparr>)))"

definition addComment ::
  "engine \<Rightarrow> env \<Rightarrow> store \<Rightarrow> request \<Rightarrow> response \<Rightarrow> response \<times> store" where
  "addComment E e st req res =
     (let commentData = reqBody req in
      if nullish commentData then
        (respond 500
           (errorBody ''Failed to add comment'' (typeErrorMessage commentData (js ''recipeId'')))
           res,
         st)
      else if \<not> truthy (getProp commentData (js ''recipeId''))
            \<or> \<not> truthy (getProp commentData (js ''username''))
            \<or> \<not> truthy (getProp commentData (js ''comment'')) then
        (respond 400 missingCommentFields res, st)
      else
        case recipeDocGet st (getProp commentData (js ''recipeId'')) of
          Inl msg \<Rightarrow> (respond 500 (errorBody ''Failed to add comment'' msg) res, st)
        | Inr None \<Rightarrow>
            (respond 404 (recipeNotFoundBody (getProp commentData (js ''recipeId''))) res, st)
        | Inr (Some recipeDoc) \<Rightarrow>
            (case newCommentOf E e commentData of
               Inl msg \<Rightarrow> (respond 500 (errorBody ''Failed to add comment'' msg) res, st)
             | Inr newComment \<Rightarrow>
                 if length (comment newComment) < 1 \<or> length (comment newComment) > 1000 then
                   (respond 400 invalidCommentLength res, st)
                 else if length (username newComment) < 1
                       \<or> length (username newComment) > 100 then
                   (respond 400 invalidUsernameLength res, st)
                 else
                   (respond 201
                      (JObj [(js ''success'', JBool True),
                             (js ''message'', JStr (js ''Comment added successfully'')),
                             (js ''comment'', commentJson (autoId e, newComment))]) res,
                    st\<lparr>comments := comments st @ [(autoId e, newComment)]\<rparr>)))"

definition commentsHandler :: "engine \<Rightarrow> env \<Rightarrow> store \<Rightarrow> request \<Rightarrow> response \<times> store" where
  "commentsHandler E e st req =
     (if httpMethod req = js ''OPTIONS'' then
        (respond 200 (JObj [(js ''ok'', JBool True)]) newResponse, st)
      else
        let res = setHeaders corsHeaders_comments newResponse
        in if httpMethod req = js ''GET'' then
             getComments st res (queryParam req (js ''recipeId''))
           else if httpMethod req = js ''POST'' then
             addComment E e st req res
           else
             (respond 405
                (JObj [(js ''error'', JStr (js ''Method not allowed'')),
                       (js ''allowedMethods'', JArr [JStr (js ''GET''), JStr (js ''POST'')])])
                res,
              st))"

section \<open>The client: dates and search\<close>

text \<open>
  \<open>new Date(timestamp)\<close>: the thrown message (\<open>Inl\<close>), or the time value in milliseconds
  since the epoch, \<open>None\<close> for an invalid date. A number is truncated and clipped to the
  range of dates, \<open>null\<close> and booleans are converted to numbers, a string is parsed, and
  an array or object is converted to a string, which may throw, and parsed.
\<close>

fun timeClip :: "jsnum \<Rightarrow> int option" where
  "timeClip (Finite r) =
     (if \<bar>r\<bar> \<le> 8640000000000000 then Some (if 0 \<le> r then \<lfloor>r\<rfloor> else \<lceil>r\<rceil>) else None)"
| "timeClip n = None"

fun newDate :: "engine \<Rightarrow> jsval \<Rightarrow> jstring + int option" where
  "newDate E JUndefined = Inr None"
| "newDate E JNull = Inr (Some 0)"
| "newDate E (JBool b) = Inr (Some (if b then 1 else 0))"
| "newDate E (JNum n) = Inr (timeClip n)"
| "newDate E (JStr s) = Inr (dateParse E s)"
| "newDate E v = andThen (ToString E v) (\<lambda>s. Inr (dateParse E s))"

text \<open>
  The calendar date of a day number (days since 1 January 1970) in the proleptic
  Gregorian calendar, as year, month and day. The day number is counted from 1 March
  of the year 0, in eras of 400 years (146097 days): \<open>doe\<close> is the day of the era,
  \<open>yoe\<close> the year of the era, \<open>doy\<close> the day of the year that starts in March and
  \<open>mp\<close> its month, March being 0.
\<close>

definition yearOfEra :: "int \<Rightarrow> int" where
  "yearOfEra doe = (doe - doe div 1460 + doe div 36524 - doe div 146096) div 365"

definition civilDate :: "int \<Rightarrow> int \<Rightarrow> int \<Rightarrow> int \<times> int \<times> int" where
  "civilDate y doy mp =
     (if mp < 10 then (y, mp + 3, doy - (153 * mp + 2) div 5 + 1)
      else (y + 1, mp - 9, doy - (153 * mp + 2) div 5 + 1))"

definition civilOfYear :: "int \<Rightarrow> int \<Rightarrow> int \<times> int \<times> int" where
  "civilOfYear y doy = civilDate y doy ((5 * doy + 2) div 153)"

definition civilOfEra :: "int \<Rightarrow> int \<Rightarrow> int \<Rightarrow> int \<times> int \<times> int" where
  "civilOfEra era doe yoe =
     civilOfYear (yoe + era * 400) (doe - (365 * yoe + yoe div 4 - yoe div 100))"

definition civilFromDays :: "int \<Rightarrow> int \<times> int \<times> int" where
  "civilFromDays days =
     civilOfEra ((days + 719468) div 146097) ((days + 719468) mod 146097)
       (yearOfEra ((days + 719468) mod 146097))"

definition monthName :: "int \<Rightarrow> jstring" where
  "monthName m =
     (if m = 1 then js ''January'' else if m = 2 then js ''February''
      else if m = 3 then js ''March'' else if m = 4 then js ''April''
      else if m = 5 then js ''May'' else if m = 6 then js ''June''
      else if m = 7 then js ''July'' else if m = 8 then js ''August''
      else if m = 9 then js ''September'' else if m = 10 then js ''October''
      else if m = 11 then js ''November'' else js ''December'')"

text \<open>\<open>Month D, YYYY\<close>.\<close>

definition longDate :: "int \<times> int \<times> int \<Rightarrow> jstring" where
  "longDate ymd =
     (case ymd of (y, m, d) \<Rightarrow>
        monthName m @ js '' '' @ integerToString d @ js '', '' @ integerToString y)"

text \<open>
  \<open>date.toLocaleDateString('en-US', { year: 'numeric', month: 'long', day: 'numeric' })\<close>
  for a valid date: the calendar date in the local time zone, as \<open>Month D, YYYY\<close> from
  the year 1 on.
\<close>

definition toLocaleDateString :: "engine \<Rightarrow> int \<Rightarrow> jstring" where
  "toLocaleDateString E t =
     (let ymd = civilFromDays ((t + localOffset E t) div 86400000)
      in if 1 \<le> fst ymd then longDate ymd else earlyDate E t)"

text \<open>
  \<open>formatDate\<close>. For an invalid date \<open>toLocaleDateString\<close> returns \<open>Invalid Date\<close> and
  does not throw; the \<open>catch\<close> is entered when \<open>new Date(timestamp)\<close> throws.
\<close>

definition formatDate :: "engine \<Rightarrow> jsval \<Rightarrow> jstring" where
  "formatDate E timestamp =
     (if \<not> truthy timestamp then js ''Recently added''
      else case newDate E timestamp of
             Inl msg \<Rightarrow> js ''Recently added''
           | Inr None \<Rightarrow> js ''Invalid Date''
           | Inr (Some date) \<Rightarrow> toLocaleDateString E date)"

text \<open>
  \<open>formatRelativeTime\<close>, with \<open>now\<close> the time value of \<open>new Date()\<close>. Time values are
  integers below \<open>2^53\<close>, so \<open>Math.floor((now - date) / 1000)\<close> is the integer quotient.
  For an invalid date the difference is \<open>NaN\<close>, every comparison is false, and the
  function falls through to \<open>formatDate\<close>; when \<open>new Date(timestamp)\<close> throws, the
  \<open>catch\<close> returns \<open>recently\<close>.
\<close>

definition formatRelativeTime :: "engine \<Rightarrow> int \<Rightarrow> jsval \<Rightarrow> jstring" where
  "formatRelativeTime E now timestamp =
     (if \<not> truthy timestamp then js ''just now''
      else case newDate E timestamp of
             Inl msg \<Rightarrow> js ''recently''
           | Inr None \<Rightarrow> formatDate E timestamp
           | Inr (Some date) \<Rightarrow>
               let diffInSeconds = (now - date) div 1000
               in if diffInSeconds < 60 then js ''just now''
                  else if diffInSeconds < 3600 then
                    integerToString (diffInSeconds div 60) @ js '' minutes ago''
                  else if diffInSeconds < 86400 then
                    integerToString (diffInSeconds div 3600) @ js '' hours ago''
                  else if diffInSeconds < 604800 then
                    integerToString (diffInSeconds div 86400) @ js '' days ago''
                  else formatDate E timestamp)"

text \<open>
  \<open>performSearch\<close>. The two arguments are the values of the search input and of the
  category select, \<open>None\<close> when the element is not in the page; \<open>allRecipes\<close> is the list
  loaded from the recipes endpoint, whose documents hold strings in every field. The
  result is the list given to \<open>displayRecipes\<close> and the two counts given to
  \<open>updateResultsCount\<close>. Unicode lower-casing is the engine's and is a parameter.
\<close>

definition searchMatch :: "(jstring \<Rightarrow> jstring) \<Rightarrow> jstring \<Rightarrow> recipe_doc \<Rightarrow> bool" where
  "searchMatch toLowerCase searchTerm recipe =
     (let nameMatch = includesStr (toLowerCase (name recipe)) searchTerm;
          ingredientsMatch =
            (ingredients recipe \<noteq> [] \<and> includesStr (toLowerCase (ingredients recipe)) searchTerm);
          instructionsMatch =
            (instructions recipe \<noteq> [] \<and> includesStr (toLowerCase (instructions recipe)) searchTerm)
      in nameMatch \<or> ingredientsMatch \<or> instructionsMatch)"

definition performSearch ::
  "(jstring \<Rightarrow> jstring) \<Rightarrow> jstring option \<Rightarrow> jstring option \<Rightarrow> (jstring \<times> recipe_doc) list
     \<Rightarrow> ((jstring \<times> recipe_doc) list \<times> nat \<times> nat) option" where
  "performSearch toLowerCase searchInput categoryFilter allRecipes =
     (case (searchInput, categoryFilter) of
        (Some searchValue, Some selectedCategory) \<Rightarrow>
          let searchTerm = trim (toLowerCase searchValue);
              byCategory =
                (if selectedCategory \<noteq> []
                 then filter (\<lambda>recipe. category (snd recipe) = selectedCategory) allRecipes
                 else allRecipes);
              filteredRecipes =
                (if searchTerm \<noteq> []
                 then filter (\<lambda>recipe. searchMatch toLowerCase searchTerm (snd recipe)) byCategory
                 else byCategory)
          in Some (filteredRecipes, length filteredRecipes, length allRecipes)
      | _ \<Rightarrow> None)"

section \<open>Sample data\<close>

text \<open>
  Data for the concrete evaluations below: an engine that renders the integers, rejects
  every date string and runs in UTC; an ASCII lower-casing; a store of two recipes; the
  clock at 14 November 2023; requests and bodies.
\<close>

definition sampleNumberToString :: "real \<Rightarrow> jstring" where
  "sampleNumberToString r = (if r = of_int \<lfloor>r\<rfloor> then integerToString \<lfloor>r\<rfloor> else js ''NaN'')"

definition sampleEngine :: engine where
  "sampleEngine =
     \<lparr>numberToString = sampleNumberToString, dateParse = (\<lambda>s. None),
      localOffset = (\<lambda>t. 0), earlyDate = (\<lambda>t. [])\<rparr>"

definition sampleNow :: int where
  "sampleNow = 1700000000000"

definition asciiLower :: "jstring \<Rightarrow> jstring" where
  "asciiLower s = map (\<lambda>c. if 0x41 \<le> c \<and> c \<le> 0x5A then c + 0x20 else c) s"

definition sampleRecipe :: "string \<Rightarrow> string \<Rightarrow> string \<Rightarrow> timestamp \<Rightarrow> recipe_doc" where
  "sampleRecipe n c i t =
     \<lparr>createdAt = t, name = js n, category = js c, prepTime = [], cookTime = [],
      ingredients = js ''flour'', instructions = js i, recipeNotes = [], updatedAt = t\<rparr>"

definition sampleStore :: store where
  "sampleStore =
     \<lparr>recipes = [(js ''r1'', sampleRecipe ''Pie'' ''dessert'' ''Mix and bake'' 1000),
                 (js ''r2'', sampleRecipe ''Stew'' ''main'' ''Simmer slowly'' 2000)],
      comments = []\<rparr>"

definition sampleEnv :: env where
  "sampleEnv = \<lparr>autoId = js ''n1'', serverTimestamp = 3000\<rparr>"

definition postRequest :: "string \<Rightarrow> jsval \<Rightarrow> request" where
  "postRequest u b = \<lparr>httpMethod = js ''POST'', url = js u, query = [], reqBody = b\<rparr>"


definition blankNameBody :: jsval where
  "blankNameBody =
     JObj [(js ''name'', JStr (js ''   '')),
           (js ''ingredients'', JStr (js ''flour'')),
           (js ''instructions'', JStr (js ''Mix and bake''))]"

definition commentBody :: "string \<Rightarrow> jsval \<Rightarrow> string \<Rightarrow> jsval" where
  "commentBody r u c =
     JObj [(js ''recipeId'', JStr (js r)), (js ''username'', u), (js ''comment'', JStr (js c))]"

text \<open>The object \<open>{toString: 1}\<close>.\<close>

definition unprintable :: jsval where
  "unprintable = JObj [(js ''toString'', JNum (Finite 1))]"

section \<open>String literals\<close>

lemma of_char_word16_inject: "(of_char a :: 16 word) = of_char b \<longleftrightarrow> a = b"
proof
  assume h: "(of_char a :: 16 word) = of_char b"
  have lt: "(of_char c :: nat) < 65536" for c
  proof -
    have "(of_char c :: nat) mod 256 < 256"
      by (rule mod_less_divisor) simp
    then have "(of_char c :: nat) < 256"
      by (simp only: of_char_mod_256)
    then show ?thesis by arith
  qed
  have "unat (of_nat (of_char a) :: 16 word) = unat (of_nat (of_char b) :: 16 word)"
    using h by (simp add: of_nat_of_char)
  then have "(of_char a :: nat) = of_char b"
    using lt [of a] lt [of b] by (simp add: unat_of_nat)
  then show "a = b" by simp
qed simp

lemma js_eq_iff: "js a = js b \<longleftrightarrow> a = b"
proof -
  have "inj (of_char :: char \<Rightarrow> 16 word)"
    by (simp add: inj_on_def of_char_word16_inject)
  then show ?thesis
    by (simp add: js_def inj_map_eq_map)
qed

lemma js_eq_Nil: "js a = [] \<longleftrightarrow> a = []"
  by (simp add: js_def)

lemma length_js: "length (js a) = length a"
  by (simp add: js_def)

lemma andThen_Inr: "andThen (Inr a) f = f a"
  by (simp add: andThen_def)

lemma andThen_Inl: "andThen (Inl m) f = Inl m"
  by (simp add: andThen_def)

section \<open>Properties of the sanitizer\<close>

lemma trim_Nil: "trim [] = []"
  by (simp add: trim_def)

lemma set_trim: "set (trim s) \<subseteq> set s"
proof -
  have "set (dropWhile isWhiteSpace (rev (dropWhile isWhiteSpace s)))
          \<subseteq> set (rev (dropWhile isWhiteSpace s))"
    by (rule set_dropWhileD [THEN subsetI])
  also have "\<dots> \<subseteq> set s"
    using set_dropWhileD [of _ isWhiteSpace s] by auto
  finally show ?thesis
    by (simp add: trim_def)
qed

lemma length_trim: "length (trim s) \<le> length s"
proof -
  have "length (trim s) \<le> length (dropWhile isWhiteSpace s)"
    by (simp add: trim_def length_dropWhile_le del: length_rev)
       (metis length_dropWhile_le length_rev)
  also have "\<dots> \<le> length s"
    by (rule length_dropWhile_le)
  finally show ?thesis .
qed

lemma removeAngleBrackets_free:
  "0x3C \<notin> set (removeAngleBrackets s) \<and> 0x3E \<notin> set (removeAngleBrackets s)"
  by (simp add: removeAngleBrackets_def)

lemma removeAngleBrackets_id:
  "0x3C \<notin> set s \<Longrightarrow> 0x3E \<notin> set s \<Longrightarrow> removeAngleBrackets s = s"
  unfolding removeAngleBrackets_def by (rule filter_True) auto

lemma substring0_id: "length s \<le> n \<Longrightarrow> substring0 n s = s"
  by (simp add: substring0_def)

lemma substring0_free: "c \<notin> set s \<Longrightarrow> c \<notin> set (substring0 n s)"
  unfolding substring0_def by (auto dest: in_set_takeD)

lemma length_substring0: "length (substring0 n s) \<le> n"
  by (simp add: substring0_def)

lemma pipeline_Nil: "pipeline n [] = []"
  by (simp add: pipeline_def trim_Nil removeAngleBrackets_def substring0_def)

lemma sanitizeString_recipes_JStr:
  "sanitizeString_recipes E (JStr s) = Inr (pipeline 10000 s)"
  by (simp add: sanitizeString_recipes_def pipeline_def trim_Nil removeAngleBrackets_def
      substring0_def)

lemma sanitizeString_comments_JStr:
  "sanitizeString_comments E (JStr s) = Inr (pipeline 1000 s)"
  by (simp add: sanitizeString_comments_def pipeline_def trim_Nil removeAngleBrackets_def
      substring0_def)

lemma pipeline_free: "0x3C \<notin> set (pipeline n s) \<and> 0x3E \<notin> set (pipeline n s)"
  unfolding pipeline_def using removeAngleBrackets_free substring0_free by blast

lemma length_pipeline: "length (pipeline n s) \<le> n"
  by (simp add: pipeline_def length_substring0)

lemma pipeline_twice: "pipeline n (pipeline n s) = trim (pipeline n s)"
proof -
  let ?r = "pipeline n s"
  have free: "0x3C \<notin> set (trim ?r)" "0x3E \<notin> set (trim ?r)"
    using pipeline_free [of n s] set_trim [of ?r] by auto
  have "length (trim ?r) \<le> n"
    using length_trim [of ?r] length_pipeline [of n s] by linarith
  then show ?thesis
    by (simp add: pipeline_def [of n ?r] removeAngleBrackets_id [OF free] substring0_id)
qed

lemma sanitize_falsy:
  "\<not> truthy v \<Longrightarrow> sanitizeString_recipes E v = Inr []"
  "\<not> truthy v \<Longrightarrow> sanitizeString_comments E v = Inr []"
  by (simp_all add: sanitizeString_recipes_def sanitizeString_comments_def)

lemma sanitize_nonstring:
  "truthy v \<Longrightarrow> \<not> isString v \<Longrightarrow> sanitizeString_recipes E v = ToString E v"
  "truthy v \<Longrightarrow> \<not> isString v \<Longrightarrow> sanitizeString_comments E v = ToString E v"
  by (cases v; simp add: sanitizeString_recipes_def sanitizeString_comments_def)+

lemma ToString_unprintable: "ToString E unprintable = Inl cannotConvertMessage"
  by (simp add: unprintable_def)

lemma sample_renders_42: "numberToString sampleEngine 42 = js ''42''"
  by (simp add: sampleEngine_def sampleNumberToString_def integerToString_def digits.simps
      js_def)

text \<open>
  C3. Claimed: every absent or non-string input is sanitized to the empty string. The
  source returns \<open>String(input)\<close> for a non-string that is truthy: \<open>true\<close> becomes
  \<open>'true'\<close>.
\<close>

theorem sanitize_nonstring_counterexample:
  "\<not> isString (JBool True)
   \<and> sanitizeString_recipes sampleEngine (JBool True) = Inr (js ''true'')
   \<and> sanitizeString_comments sampleEngine (JBool True) = Inr (js ''true'')
   \<and> js ''true'' \<noteq> []"
  by (simp add: sanitizeString_recipes_def sanitizeString_comments_def js_eq_Nil)

text \<open>
  C3, amended. An absent input (\<open>undefined\<close>, \<open>null\<close>) and every other falsy input is
  sanitized to the empty string; for a truthy input that is not a string the sanitizer
  does what \<open>String(input)\<close> does: it returns that string, neither trimmed, stripped nor
  truncated, or throws what the conversion throws.
\<close>

theorem sanitize_absent_or_nonstring:
  "sanitizeString_recipes E JUndefined = Inr [] \<and> sanitizeString_comments E JUndefined = Inr []
   \<and> sanitizeString_recipes E JNull = Inr [] \<and> sanitizeString_comments E JNull = Inr []
   \<and> (\<not> truthy v \<longrightarrow>
        sanitizeString_recipes E v = Inr [] \<and> sanitizeString_comments E v = Inr [])
   \<and> (truthy v \<and> \<not> isString v \<longrightarrow>
        sanitizeString_recipes E v = ToString E v \<and> sanitizeString_comments E v = ToString E v)"
  by (simp add: sanitize_falsy sanitize_nonstring)

theorem sanitize_absent_or_nonstring_witness:
  "\<not> truthy (JNum (Finite 0))
   \<and> sanitizeString_recipes sampleEngine (JNum (Finite 0)) = Inr []
   \<and> sanitizeString_comments sampleEngine (JNum (Finite 0)) = Inr []
   \<and> truthy (JNum (Finite 42)) \<and> \<not> isString (JNum (Finite 42))
   \<and> sanitizeString_recipes sampleEngine (JNum (Finite 42)) = Inr (js ''42'')
   \<and> sanitizeString_comments sampleEngine (JNum (Finite 42)) = Inr (js ''42'')
   \<and> truthy unprintable \<and> \<not> isString unprintable
   \<and> sanitizeString_recipes sampleEngine unprintable = Inl cannotConvertMessage
   \<and> sanitizeString_comments sampleEngine unprintable = Inl cannotConvertMessage"
  using sanitize_absent_or_nonstring [of sampleEngine "JNum (Finite 0)"]
    sanitize_absent_or_nonstring [of sampleEngine "JNum (Finite 42)"]
    sanitize_absent_or_nonstring [of sampleEngine unprintable]
  by (simp add: sample_renders_42 ToString_unprintable) (simp add: unprintable_def)

text \<open>
  C4. For every string \<open>S\<close>, the sanitizer returns a string that has no \<open><\<close> and no
  \<open>>\<close>, is at most 1000 (comments) or 10000 (recipes) code units long, and is \<open>S\<close>
  trimmed, with every \<open><\<close> and \<open>>\<close> removed, then truncated to that length.
\<close>

theorem sanitize_string:
  "(\<exists>r. sanitizeString_comments E (JStr S) = Inr r
        \<and> 0x3C \<notin> set r \<and> 0x3E \<notin> set r \<and> length r \<le> 1000
        \<and> r = take 1000 (filter (\<lambda>c. c \<noteq> 0x3C \<and> c \<noteq> 0x3E) (trim S)))
   \<and> (\<exists>r. sanitizeString_recipes E (JStr S) = Inr r
        \<and> 0x3C \<notin> set r \<and> 0x3E \<notin> set r \<and> length r \<le> 10000
        \<and> r = take 10000 (filter (\<lambda>c. c \<noteq> 0x3C \<and> c \<noteq> 0x3E) (trim S)))"
proof -
  have "pipeline n S = take n (filter (\<lambda>c. c \<noteq> 0x3C \<and> c \<noteq> 0x3E) (trim S))" for n
    by (simp add: pipeline_def substring0_def removeAngleBrackets_def)
  then show ?thesis
    using pipeline_free [of 1000 S] pipeline_free [of 10000 S]
      length_pipeline [of 1000 S] length_pipeline [of 10000 S]
    by (simp only: sanitizeString_comments_JStr sanitizeString_recipes_JStr) simp
qed

theorem sanitize_string_witness:
  "sanitizeString_comments sampleEngine (JStr (js '' <b>Hi</b> '')) = Inr (js ''bHi/b'')
   \<and> sanitizeString_recipes sampleEngine (JStr (js '' <b>Hi</b> '')) = Inr (js ''bHi/b'')"
  using sanitize_string [of sampleEngine "js '' <b>Hi</b> ''"]
  by (auto simp add: trim_def isWhiteSpace_def js_def)

text \<open>
  C5. Claimed: \<open>sanitize(sanitize(x)) = sanitize(x)\<close> for every input. The source trims
  before it strips and truncates, so white space uncovered by a removed bracket stays:
  \<open>'< a'\<close> is sanitized to \<open>' a'\<close>, and that to \<open>'a'\<close>.
\<close>

theorem sanitize_not_idempotent:
  "sanitizeString_comments sampleEngine (JStr (js ''< a'')) = Inr (js '' a'')
   \<and> sanitizeString_comments sampleEngine (JStr (js '' a'')) = Inr (js ''a'')
   \<and> sanitizeString_recipes sampleEngine (JStr (js ''< a'')) = Inr (js '' a'')
   \<and> sanitizeString_recipes sampleEngine (JStr (js '' a'')) = Inr (js ''a'')
   \<and> js ''a'' \<noteq> js '' a''"
  by (simp add: sanitizeString_comments_JStr sanitizeString_recipes_JStr pipeline_def
      substring0_def removeAngleBrackets_def trim_def isWhiteSpace_def js_def)

text \<open>
  C5, amended. For every string \<open>S\<close>, sanitizing the sanitized string trims it and does
  nothing else; so \<open>sanitize(sanitize(S)) = sanitize(S)\<close> whenever \<open>sanitize(S)\<close> neither
  starts nor ends with white space.
\<close>

theorem sanitize_twice:
  "(\<exists>r. sanitizeString_comments E (JStr S) = Inr r
        \<and> sanitizeString_comments E (JStr r) = Inr (trim r)
        \<and> (trim r = r \<longrightarrow> sanitizeString_comments E (JStr r) = Inr r))
   \<and> (\<exists>r. sanitizeString_recipes E (JStr S) = Inr r
        \<and> sanitizeString_recipes E (JStr r) = Inr (trim r)
        \<and> (trim r = r \<longrightarrow> sanitizeString_recipes E (JStr r) = Inr r))"
  by (simp add: sanitizeString_comments_JStr sanitizeString_recipes_JStr pipeline_twice)

theorem sanitize_twice_witness:
  "sanitizeString_comments sampleEngine (JStr (js '' <b>Hi</b> '')) = Inr (js ''bHi/b'')
   \<and> trim (js ''bHi/b'') = js ''bHi/b''
   \<and> sanitizeString_comments sampleEngine (JStr (js ''bHi/b'')) = Inr (js ''bHi/b'')
   \<and> sanitizeString_recipes sampleEngine (JStr (js '' <b>Hi</b> '')) = Inr (js ''bHi/b'')
   \<and> sanitizeString_recipes sampleEngine (JStr (js ''bHi/b'')) = Inr (js ''bHi/b'')"
proof -
  have c: "sanitizeString_comments sampleEngine (JStr (js '' <b>Hi</b> '')) = Inr (js ''bHi/b'')"
    by (simp add: sanitizeString_comments_JStr pipeline_def substring0_def
        removeAngleBrackets_def trim_def isWhiteSpace_def js_def)
  have r: "sanitizeString_recipes sampleEngine (JStr (js '' <b>Hi</b> '')) = Inr (js ''bHi/b'')"
    by (simp add: sanitizeString_recipes_JStr pipeline_def substring0_def
        removeAngleBrackets_def trim_def isWhiteSpace_def js_def)
  have t: "trim (js ''bHi/b'') = js ''bHi/b''"
    by (simp add: trim_def isWhiteSpace_def js_def)
  show ?thesis
    using sanitize_twice [of sampleEngine "js '' <b>Hi</b> ''"] by (simp add: c r t)
qed

section \<open>Properties of the handlers\<close>

lemma method_neq:
  "js ''POST'' \<noteq> js ''OPTIONS''" "js ''POST'' \<noteq> js ''GET''" "js ''GET'' \<noteq> js ''OPTIONS''"
  "js ''GET'' \<noteq> js ''POST''"
  by (simp_all add: js_eq_iff)

lemma headers_respond: "headers (respond c b res) = headers res"
  by (simp add: respond_def)

lemma statusCode_respond: "statusCode (respond c b res) = c"
  by (simp add: respond_def)

lemma body_respond: "body (respond c b res) = b"
  by (simp add: respond_def)

lemma headers_cors_recipes:
  "headers (setHeaders corsHeaders_recipes newResponse) = corsHeaders_recipes"
  by (simp add: setHeaders_def corsHeaders_recipes_def setHeader_def newResponse_def js_eq_iff)

lemma headers_cors_comments:
  "headers (setHeaders corsHeaders_comments newResponse) = corsHeaders_comments"
  by (simp add: setHeaders_def corsHeaders_comments_def setHeader_def newResponse_def js_eq_iff)

text \<open>
  C7. Claimed: every response of either handler, the \<open>OPTIONS\<close> preflight answer
  included, carries the cross-origin headers. Both handlers answer \<open>OPTIONS\<close> with 200
  and \<open>{ok: true}\<close> before they set the headers, so the preflight answer has none.
\<close>

theorem preflight_without_cors_headers:
  "fst (recipesHandler E e st (req\<lparr>httpMethod := js ''OPTIONS''\<rparr>))
     = \<lparr>statusCode = 200, headers = [], body = JObj [(js ''ok'', JBool True)]\<rparr>
   \<and> fst (commentsHandler E e st (req\<lparr>httpMethod := js ''OPTIONS''\<rparr>))
     = \<lparr>statusCode = 200, headers = [], body = JObj [(js ''ok'', JBool True)]\<rparr>"
  by (simp add: recipesHandler_def commentsHandler_def respond_def newResponse_def)

text \<open>Every response to another method carries the three headers.\<close>

lemma routed_recipes_responses_carry_cors:
  "httpMethod req \<noteq> js ''OPTIONS'' \<Longrightarrow>
   headers (fst (recipesHandler E e st req)) = corsHeaders_recipes"
  by (simp add: recipesHandler_def Let_def getRecentRecipes_def getRecipeById_def
      getAllRecipes_def createRecipe_def deleteRecipe_def headers_respond headers_cors_recipes
      split: sum.splits option.splits)

lemma routed_comments_responses_carry_cors:
  "httpMethod req \<noteq> js ''OPTIONS'' \<Longrightarrow>
   headers (fst (commentsHandler E e st req)) = corsHeaders_comments"
  by (simp add: commentsHandler_def Let_def getComments_def addComment_def headers_respond
      headers_cors_comments split: sum.splits option.splits)

lemma sanitize_recipes_samples:
  "sanitizeString_recipes E (JStr (js ''   '')) = Inr []"
  "sanitizeString_recipes E (JStr (js ''flour'')) = Inr (js ''flour'')"
  "sanitizeString_recipes E (JStr (js ''Mix and bake'')) = Inr (js ''Mix and bake'')"
  "sanitizeString_recipes E JUndefined = Inr []"
  by (simp_all add: sanitizeString_recipes_JStr pipeline_def substring0_def
        removeAngleBrackets_def trim_def isWhiteSpace_def js_def sanitize_falsy)

lemma blankNameBody_props:
  "getProp blankNameBody (js ''name'') = JStr (js ''   '')"
  "getProp blankNameBody (js ''ingredients'') = JStr (js ''flour'')"
  "getProp blankNameBody (js ''instructions'') = JStr (js ''Mix and bake'')"
  "getProp blankNameBody (js ''category'') = JUndefined"
  "getProp blankNameBody (js ''prepTime'') = JUndefined"
  "getProp blankNameBody (js ''cookTime'') = JUndefined"
  "getProp blankNameBody (js ''notes'') = JUndefined"
  "\<not> nullish blankNameBody"
  by (simp_all add: blankNameBody_def js_eq_iff)

text \<open>
  C2. Claimed: every recipe stored through the create endpoint has a non-empty name,
  ingredients and instructions after sanitization. The handler tests the raw fields
  and sanitizes afterwards: a name of three spaces passes the test, and the document is
  stored, with status 201, under the empty name.
\<close>

theorem createRecipe_stores_blank_name:
  "statusCode (fst (recipesHandler E sampleEnv sampleStore
                      (postRequest ''/api/recipes'' blankNameBody))) = 201
   \<and> map (\<lambda>d. (fst d, name (snd d)))
         (recipes (snd (recipesHandler E sampleEnv sampleStore
                          (postRequest ''/api/recipes'' blankNameBody))))
       = [(js ''r1'', js ''Pie''), (js ''r2'', js ''Stew''), (js ''n1'', [])]"
proof -
  have m: "httpMethod (postRequest ''/api/recipes'' blankNameBody) = js ''POST''"
    and b: "reqBody (postRequest ''/api/recipes'' blankNameBody) = blankNameBody"
    by (simp_all add: postRequest_def)
  have t: "js ''   '' \<noteq> []" "js ''flour'' \<noteq> []" "js ''Mix and bake'' \<noteq> []"
    by (simp_all add: js_eq_Nil)
  show ?thesis
    by (simp add: recipesHandler_def m b method_neq Let_def createRecipe_def newRecipeOf_def
        blankNameBody_props t sanitize_recipes_samples andThen_Inr statusCode_respond
        sampleStore_def sampleEnv_def sampleRecipe_def)
qed

text \<open>The half of the claim that holds: a missing or empty raw field is refused.\<close>

lemma createRecipe_missing_field:
  assumes "httpMethod req = js ''POST''"
    and "\<not> nullish (reqBody req)"
    and "\<not> truthy (getProp (reqBody req) (js ''name''))
         \<or> \<not> truthy (getProp (reqBody req) (js ''ingredients''))
         \<or> \<not> truthy (getProp (reqBody req) (js ''instructions''))"
  shows "statusCode (fst (recipesHandler E e st req)) = 400 \<and> snd (recipesHandler E e st req) = st"
  using assms
  by (auto simp add: recipesHandler_def method_neq Let_def createRecipe_def statusCode_respond)

lemma recipeDocGet_string:
  "recipeDocGet st v = Inr r \<Longrightarrow> \<exists>s. v = JStr s \<and> s \<noteq> []"
  by (cases v) (simp_all add: recipeDocGet_def split: if_splits)

lemma getProp_nullish: "nullish v \<Longrightarrow> getProp v k = JUndefined"
  by (cases v) auto

lemma truthy_not_nullish: "truthy (getProp b k) \<Longrightarrow> \<not> nullish b"
  using getProp_nullish [of b k] by auto

lemma existing_recipe_fields:
  assumes "recipeDocGet st (getProp b (js ''recipeId'')) = Inr r"
  shows "truthy (getProp b (js ''recipeId''))" and "\<not> nullish b"
    and "\<exists>s. sanitizeString_comments E (getProp b (js ''recipeId'')) = Inr s"
proof -
  from recipeDocGet_string [OF assms]
  obtain s where s: "getProp b (js ''recipeId'') = JStr s" "s \<noteq> []" by blast
  then show t: "truthy (getProp b (js ''recipeId''))" by simp
  then show "\<not> nullish b" by (rule truthy_not_nullish)
  show "\<exists>s. sanitizeString_comments E (getProp b (js ''recipeId'')) = Inr s"
    by (simp add: s sanitizeString_comments_JStr)
qed

lemma comments_post_route:
  "httpMethod req = js ''POST'' \<Longrightarrow>
   commentsHandler E e st req
     = addComment E e st req (setHeaders corsHeaders_comments newResponse)"
  by (simp add: commentsHandler_def method_neq)

lemma commentBody_props:
  "getProp (commentBody r u c) (js ''recipeId'') = JStr (js r)"
  "getProp (commentBody r u c) (js ''username'') = u"
  "getProp (commentBody r u c) (js ''comment'') = JStr (js c)"
  "\<not> nullish (commentBody r u c)"
  by (simp_all add: commentBody_def js_eq_iff)

lemma sampleStore_r1:
  "recipeDocGet sampleStore (JStr (js ''r1''))
     = Inr (Some (js ''r1'', sampleRecipe ''Pie'' ''dessert'' ''Mix and bake'' 1000))"
  by (simp add: recipeDocGet_def pathSegments_def sampleStore_def js_def)

lemma sampleStore_nope: "recipeDocGet sampleStore (JStr (js ''nope'')) = Inr None"
  by (simp add: recipeDocGet_def pathSegments_def sampleStore_def js_def)

lemma sanitize_comments_samples:
  "sanitizeString_comments E (JStr (js ''   '')) = Inr []"
  "sanitizeString_comments E (JStr (js ''r1'')) = Inr (js ''r1'')"
  "sanitizeString_comments E (JStr (js ''Ann'')) = Inr (js ''Ann'')"
  "sanitizeString_comments E (JStr (js ''Delicious!'')) = Inr (js ''Delicious!'')"
  by (simp_all add: sanitizeString_comments_JStr pipeline_def substring0_def
        removeAngleBrackets_def trim_def isWhiteSpace_def js_def)

lemma sanitize_comments_unprintable:
  "sanitizeString_comments E unprintable = Inl cannotConvertMessage" "truthy unprintable"
  by (simp_all add: sanitizeString_comments_def unprintable_def)

text \<open>
  C1. Claimed: with an existing recipe, a sanitized username outside 1 to 100 or a
  sanitized comment outside 1 to 1000 code units is answered 400. When sanitizing
  throws, the answer is 500: for the username \<open>{toString: 1}\<close> and a comment of three
  spaces, whose sanitized length is 0, the handler answers 500.
\<close>

theorem addComment_sanitizer_throws:
  "recipeDocGet sampleStore (getProp (commentBody ''r1'' unprintable ''   '') (js ''recipeId''))
     = Inr (Some (js ''r1'', sampleRecipe ''Pie'' ''dessert'' ''Mix and bake'' 1000))
   \<and> sanitizeString_comments sampleEngine
        (getProp (commentBody ''r1'' unprintable ''   '') (js ''comment'')) = Inr []
   \<and> statusCode (fst (commentsHandler sampleEngine sampleEnv sampleStore
                         (postRequest ''/api/comments'' (commentBody ''r1'' unprintable ''   ''))))
       = 500"
  by (simp add: comments_post_route postRequest_def addComment_def Let_def commentBody_props
      sampleStore_r1 js_eq_Nil sanitize_comments_unprintable sanitize_comments_samples
      newCommentOf_def andThen_Inr andThen_Inl statusCode_respond)

text \<open>
  C1, amended. For every \<open>POST\<close> to the comments endpoint whose \<open>recipeId\<close> refers to an
  existing recipe: when the username and the comment are sanitized without a throw and
  the sanitized username is not 1 to 100 code units long, or the sanitized comment not 1
  to 1000, the answer is 400 and the store is unchanged; when both are present and
  sanitizing one of them throws, the answer is 500 and the store is unchanged.
\<close>

theorem addComment_length_validation:
  assumes post: "httpMethod req = js ''POST''"
    and found: "recipeDocGet st (getProp (reqBody req) (js ''recipeId'')) = Inr (Some d)"
  shows "(sanitizeString_comments E (getProp (reqBody req) (js ''username'')) = Inr u
          \<and> sanitizeString_comments E (getProp (reqBody req) (js ''comment'')) = Inr c
          \<and> (length u < 1 \<or> length u > 100 \<or> length c < 1 \<or> length c > 1000)
          \<longrightarrow> statusCode (fst (commentsHandler E e st req)) = 400
              \<and> snd (commentsHandler E e st req) = st)
       \<and> (truthy (getProp (reqBody req) (js ''username''))
          \<and> truthy (getProp (reqBody req) (js ''comment''))
          \<and> (isl (sanitizeString_comments E (getProp (reqBody req) (js ''username'')))
              \<or> isl (sanitizeString_comments E (getProp (reqBody req) (js ''comment''))))
          \<longrightarrow> statusCode (fst (commentsHandler E e st req)) = 500
              \<and> snd (commentsHandler E e st req) = st)"
proof -
  note f = existing_recipe_fields(1,2) [OF found]
  from existing_recipe_fields(3) [OF found, of E]
  obtain r where r: "sanitizeString_comments E (getProp (reqBody req) (js ''recipeId'')) = Inr r"
    by blast
  note route = comments_post_route [OF post]
  have bad: "statusCode (fst (commentsHandler E e st req)) = 400
             \<and> snd (commentsHandler E e st req) = st"
    if u: "sanitizeString_comments E (getProp (reqBody req) (js ''username'')) = Inr u"
      and c: "sanitizeString_comments E (getProp (reqBody req) (js ''comment'')) = Inr c"
      and len: "length u < 1 \<or> length u > 100 \<or> length c < 1 \<or> length c > 1000"
  proof (cases "truthy (getProp (reqBody req) (js ''username''))
                \<and> truthy (getProp (reqBody req) (js ''comment''))")
    case False
    then show ?thesis
      by (auto simp add: route addComment_def Let_def f statusCode_respond)
  next
    case True
    with len show ?thesis
      by (auto simp add: route addComment_def Let_def f found newCommentOf_def r u c
          andThen_Inr statusCode_respond)
  qed
  have thrown: "statusCode (fst (commentsHandler E e st req)) = 500
                \<and> snd (commentsHandler E e st req) = st"
    if "truthy (getProp (reqBody req) (js ''username''))"
      and "truthy (getProp (reqBody req) (js ''comment''))"
      and "isl (sanitizeString_comments E (getProp (reqBody req) (js ''username'')))
           \<or> isl (sanitizeString_comments E (getProp (reqBody req) (js ''comment'')))"
  proof -
    have "isl (newCommentOf E e (reqBody req))"
      using that(3) by (auto simp add: newCommentOf_def r andThen_def split: sum.splits)
    then obtain m where "newCommentOf E e (reqBody req) = Inl m"
      by (cases "newCommentOf E e (reqBody req)") auto
    with that(1,2) show ?thesis
      by (simp add: route addComment_def Let_def f found statusCode_respond)
  qed
  from bad thrown show ?thesis by blast
qed

theorem addComment_length_validation_witness:
  "recipeDocGet sampleStore
       (getProp (commentBody ''r1'' (JStr (js ''   '')) ''Delicious!'') (js ''recipeId''))
     = Inr (Some (js ''r1'', sampleRecipe ''Pie'' ''dessert'' ''Mix and bake'' 1000))
   \<and> sanitizeString_comments sampleEngine
        (getProp (commentBody ''r1'' (JStr (js ''   '')) ''Delicious!'') (js ''username''))
       = Inr []
   \<and> statusCode (fst (commentsHandler sampleEngine sampleEnv sampleStore
        (postRequest ''/api/comments'' (commentBody ''r1'' (JStr (js ''   '')) ''Delicious!''))))
       = 400
   \<and> snd (commentsHandler sampleEngine sampleEnv sampleStore
        (postRequest ''/api/comments'' (commentBody ''r1'' (JStr (js ''   '')) ''Delicious!'')))
       = sampleStore
   \<and> isl (sanitizeString_comments sampleEngine
        (getProp (commentBody ''r1'' unprintable ''Delicious!'') (js ''username'')))
   \<and> statusCode (fst (commentsHandler sampleEngine sampleEnv sampleStore
        (postRequest ''/api/comments'' (commentBody ''r1'' unprintable ''Delicious!''))))
       = 500
   \<and> snd (commentsHandler sampleEngine sampleEnv sampleStore
        (postRequest ''/api/comments'' (commentBody ''r1'' unprintable ''Delicious!'')))
       = sampleStore"
  using
    addComment_length_validation
      [where req = "postRequest ''/api/comments'' (commentBody ''r1'' (JStr (js ''   '')) ''Delicious!'')"
        and st = sampleStore and E = sampleEngine and e = sampleEnv and u = "[]"
        and c = "js ''Delicious!''"
        and d = "(js ''r1'', sampleRecipe ''Pie'' ''dessert'' ''Mix and bake'' 1000)"]
    addComment_length_validation
      [where req = "postRequest ''/api/comments'' (commentBody ''r1'' unprintable ''Delicious!'')"
        and st = sampleStore and E = sampleEngine and e = sampleEnv and u = "[]" and c = "[]"
        and d = "(js ''r1'', sampleRecipe ''Pie'' ''dessert'' ''Mix and bake'' 1000)"]
  by (simp add: postRequest_def commentBody_props sampleStore_r1 sanitize_comments_samples
      sanitize_comments_unprintable js_eq_Nil)

text \<open>
  C6. Claimed: a \<open>POST\<close> whose \<open>recipeId\<close> refers to no existing recipe is answered 404
  whatever the username and the comment are. The handler first refuses a request with
  a missing or empty field: an empty username against an unknown recipe is answered 400.
\<close>

theorem missing_field_precedes_existence_check:
  "recipeDocGet sampleStore
       (getProp (commentBody ''nope'' (JStr []) ''Delicious!'') (js ''recipeId'')) = Inr None
   \<and> statusCode (fst (commentsHandler sampleEngine sampleEnv sampleStore
        (postRequest ''/api/comments'' (commentBody ''nope'' (JStr []) ''Delicious!'')))) = 400
   \<and> statusCode (fst (commentsHandler sampleEngine sampleEnv sampleStore
        (postRequest ''/api/comments'' (commentBody ''nope'' (JStr []) ''Delicious!'')))) \<noteq> 404"
  by (simp add: comments_post_route postRequest_def addComment_def Let_def commentBody_props
      sampleStore_nope statusCode_respond js_eq_Nil)

text \<open>
  C6, amended. For every \<open>POST\<close> to the comments endpoint: when the body is present and
  \<open>recipeId\<close>, \<open>username\<close> or \<open>comment\<close> is missing or falsy, the answer is 400 with
  \<open>Missing required fields\<close>, whether the recipe exists or not; when the three fields are
  truthy and \<open>recipeId\<close> is a document path of no stored recipe, the answer is 404 with
  \<open>Recipe not found\<close>, whatever the sanitized lengths are; in both cases the store is
  unchanged. The two length-validation answers are given only when the recipe exists.
\<close>

theorem addComment_existence_before_length:
  assumes post: "httpMethod req = js ''POST''"
  shows "(\<not> nullish (reqBody req)
          \<and> (\<not> truthy (getProp (reqBody req) (js ''recipeId''))
              \<or> \<not> truthy (getProp (reqBody req) (js ''username''))
              \<or> \<not> truthy (getProp (reqBody req) (js ''comment'')))
          \<longrightarrow> commentsHandler E e st req
                = (respond 400 missingCommentFields
                     (setHeaders corsHeaders_comments newResponse), st))
       \<and> (truthy (getProp (reqBody req) (js ''recipeId''))
          \<and> truthy (getProp (reqBody req) (js ''username''))
          \<and> truthy (getProp (reqBody req) (js ''comment''))
          \<and> recipeDocGet st (getProp (reqBody req) (js ''recipeId'')) = Inr None
          \<longrightarrow> commentsHandler E e st req
                = (respond 404 (recipeNotFoundBody (getProp (reqBody req) (js ''recipeId'')))
                     (setHeaders corsHeaders_comments newResponse), st))
       \<and> (body (fst (commentsHandler E e st req)) = invalidCommentLength
          \<or> body (fst (commentsHandler E e st req)) = invalidUsernameLength
          \<longrightarrow> (\<exists>d. recipeDocGet st (getProp (reqBody req) (js ''recipeId'')) = Inr (Some d)))"
proof -
  note route = comments_post_route [OF post]
  have missing: "commentsHandler E e st req
                   = (respond 400 missingCommentFields
                        (setHeaders corsHeaders_comments newResponse), st)"
    if "\<not> nullish (reqBody req)"
      and "\<not> truthy (getProp (reqBody req) (js ''recipeId''))
           \<or> \<not> truthy (getProp (reqBody req) (js ''username''))
           \<or> \<not> truthy (getProp (reqBody req) (js ''comment''))"
    using that by (auto simp add: route addComment_def Let_def)
  have first: "commentsHandler E e st req
                 = (respond 404 (recipeNotFoundBody (getProp (reqBody req) (js ''recipeId'')))
                      (setHeaders corsHeaders_comments newResponse), st)"
    if "truthy (getProp (reqBody req) (js ''recipeId''))"
      and "truthy (getProp (reqBody req) (js ''username''))"
      and "truthy (getProp (reqBody req) (js ''comment''))"
      and "recipeDocGet st (getProp (reqBody req) (js ''recipeId'')) = Inr None"
  proof -
    have "\<not> nullish (reqBody req)"
      using that(1) by (rule truthy_not_nullish)
    with that show ?thesis
      by (simp add: route addComment_def Let_def)
  qed
  have second: "\<exists>d. recipeDocGet st (getProp (reqBody req) (js ''recipeId'')) = Inr (Some d)"
    if b: "body (fst (commentsHandler E e st req)) = invalidCommentLength
           \<or> body (fst (commentsHandler E e st req)) = invalidUsernameLength"
  proof (rule ccontr)
    assume no: "\<nexists>d. recipeDocGet st (getProp (reqBody req) (js ''recipeId'')) = Inr (Some d)"
    have "body (fst (commentsHandler E e st req)) \<noteq> invalidCommentLength
          \<and> body (fst (commentsHandler E e st req)) \<noteq> invalidUsernameLength"
      using no
      by (auto simp add: route addComment_def Let_def body_respond invalidCommentLength_def
          invalidUsernameLength_def missingCommentFields_def errorBody_def
          recipeNotFoundBody_def js_eq_iff
          split: sum.splits option.splits)
    with b show False by blast
  qed
  from missing first second show ?thesis by blast
qed

theorem addComment_existence_before_length_witness:
  "\<not> nullish (commentBody ''nope'' (JStr []) ''Delicious!'')
   \<and> \<not> truthy (getProp (commentBody ''nope'' (JStr []) ''Delicious!'') (js ''username''))
   \<and> body (fst (commentsHandler sampleEngine sampleEnv sampleStore
        (postRequest ''/api/comments'' (commentBody ''nope'' (JStr []) ''Delicious!''))))
       = missingCommentFields
   \<and> truthy (getProp (commentBody ''nope'' (JStr (js ''   '')) ''Delicious!'') (js ''recipeId''))
   \<and> truthy (getProp (commentBody ''nope'' (JStr (js ''   '')) ''Delicious!'') (js ''username''))
   \<and> truthy (getProp (commentBody ''nope'' (JStr (js ''   '')) ''Delicious!'') (js ''comment''))
   \<and> recipeDocGet sampleStore
        (getProp (commentBody ''nope'' (JStr (js ''   '')) ''Delicious!'') (js ''recipeId''))
       = Inr None
   \<and> statusCode (fst (commentsHandler sampleEngine sampleEnv sampleStore
        (postRequest ''/api/comments'' (commentBody ''nope'' (JStr (js ''   '')) ''Delicious!''))))
       = 404
   \<and> body (fst (commentsHandler sampleEngine sampleEnv sampleStore
        (postRequest ''/api/comments'' (commentBody ''r1'' (JStr (js ''   '')) ''Delicious!''))))
       = invalidUsernameLength
   \<and> (\<exists>d. recipeDocGet sampleStore
        (getProp (commentBody ''r1'' (JStr (js ''   '')) ''Delicious!'') (js ''recipeId''))
       = Inr (Some d))"
proof -
  have u: "body (fst (commentsHandler sampleEngine sampleEnv sampleStore
        (postRequest ''/api/comments'' (commentBody ''r1'' (JStr (js ''   '')) ''Delicious!''))))
       = invalidUsernameLength"
    by (simp add: comments_post_route postRequest_def addComment_def Let_def commentBody_props
        sampleStore_r1 body_respond sanitize_comments_samples newCommentOf_def andThen_Inr
        js_eq_Nil length_js)
  show ?thesis
    using
      addComment_existence_before_length
        [where req = "postRequest ''/api/comments'' (commentBody ''nope'' (JStr []) ''Delicious!'')"
          and st = sampleStore and E = sampleEngine and e = sampleEnv]
      addComment_existence_before_length
        [where req = "postRequest ''/api/comments'' (commentBody ''nope'' (JStr (js ''   '')) ''Delicious!'')"
          and st = sampleStore and E = sampleEngine and e = sampleEnv]
      addComment_existence_before_length
        [where req = "postRequest ''/api/comments'' (commentBody ''r1'' (JStr (js ''   '')) ''Delicious!'')"
          and st = sampleStore and E = sampleEngine and e = sampleEnv]
      u
    by (simp add: postRequest_def commentBody_props sampleStore_nope sampleStore_r1
        statusCode_respond body_respond js_eq_Nil)
qed

section \<open>Routing of the recipes endpoint\<close>

lemma split_not_Nil: "split c s \<noteq> []"
  by (induction s) (auto split: list.splits)







section \<open>Properties of the client functions\<close>

lemma civilFromDays_samples:
  "civilFromDays 0 = (1970, 1, 1)"
  "civilFromDays 19667 = (2023, 11, 6)"
  "civilFromDays 19782 = (2024, 2, 29)"
  "civilFromDays 11016 = (2000, 2, 29)"
  "civilFromDays (- 1) = (1969, 12, 31)"
  "civilFromDays (- 25509) = (1900, 2, 28)"
  "civilFromDays (- 25508) = (1900, 3, 1)"
  "civilFromDays (- 719162) = (1, 1, 1)"
  "civilFromDays (- 719163) = (0, 12, 31)"
  by (simp_all add: civilFromDays_def yearOfEra_def civilOfEra_def civilOfYear_def
      civilDate_def)

lemma digits_small: "n < 10 \<Longrightarrow> digits n = [of_nat (48 + n)]"
  by (subst digits.simps) simp

lemma digits_step: "10 \<le> n \<Longrightarrow> digits n = digits (n div 10) @ [of_nat (48 + n mod 10)]"
  by (subst digits.simps) simp

lemma digits_samples:
  "digits 1 = js ''1''" "digits 2 = js ''2''" "digits 3 = js ''3''" "digits 5 = js ''5''"
  "digits 6 = js ''6''" "digits 1970 = js ''1970''" "digits 2023 = js ''2023''"
  by (simp_all add: digits_small digits_step js_def)

lemma toLocaleDateString_samples:
  "toLocaleDateString sampleEngine 0 = js ''January 1, 1970''"
  "toLocaleDateString sampleEngine 1699308800000 = js ''November 6, 2023''"
proof -
  have d0: "(0 + 0) div 86400000 = (0::int)" "(1699308800000 + 0) div 86400000 = (19667::int)"
    by simp_all
  have n: "nat 1 = 1" "nat 6 = 6" "nat 1970 = 1970" "nat 2023 = 2023"
    by simp_all
  have i: "integerToString 1 = js ''1''" "integerToString 6 = js ''6''"
    "integerToString 1970 = js ''1970''" "integerToString 2023 = js ''2023''"
    by (simp_all only: integerToString_def n digits_samples) simp_all
  have j: "js ''January'' @ js '' '' @ js ''1'' @ js '', '' @ js ''1970'' = js ''January 1, 1970''"
    "js ''November'' @ js '' '' @ js ''6'' @ js '', '' @ js ''2023'' = js ''November 6, 2023''"
    by (simp_all add: js_def)
  show "toLocaleDateString sampleEngine 0 = js ''January 1, 1970''"
    by (simp add: toLocaleDateString_def sampleEngine_def d0 civilFromDays_samples longDate_def
        monthName_def i j)
  show "toLocaleDateString sampleEngine 1699308800000 = js ''November 6, 2023''"
    by (simp add: toLocaleDateString_def sampleEngine_def d0 civilFromDays_samples longDate_def
        monthName_def i j)
qed

text \<open>
  C8. Claimed: \<open>just now\<close> for an absent timestamp or one less than 60 seconds old,
  \<open>N minutes/hours/days ago\<close> under seven days, the absolute date from seven days on,
  and a fixed string for an unparseable one. The guard \<open>!timestamp\<close> also catches the
  number 0: the epoch, decades old, is rendered \<open>just now\<close>, not \<open>January 1, 1970\<close>.
\<close>

theorem formatRelativeTime_epoch_zero:
  "newDate sampleEngine (JNum (Finite 0)) = Inr (Some 0)
   \<and> 604800 \<le> (sampleNow - 0) div 1000
   \<and> formatRelativeTime sampleEngine sampleNow (JNum (Finite 0)) = js ''just now''
   \<and> toLocaleDateString sampleEngine 0 = js ''January 1, 1970''
   \<and> js ''just now'' \<noteq> js ''January 1, 1970''"
  by (simp add: formatRelativeTime_def sampleNow_def toLocaleDateString_samples js_eq_iff)

text \<open>
  C8, amended. A falsy timestamp (absent, \<open>null\<close>, the empty string, 0, \<open>false\<close>) is
  rendered \<open>just now\<close>. A truthy timestamp that is a valid date is rendered \<open>just now\<close>
  when less than 60 seconds old, in whole minutes, hours or days under 3600, 86400 and
  604800 seconds, and from 604800 seconds on as \<open>formatDate\<close> renders it: the local
  calendar date as \<open>Month D, YYYY\<close>, for the years from 1 on. When making the date
  throws, the fallback \<open>recently\<close> is returned.
\<close>

theorem formatRelativeTime_cases:
  "(\<not> truthy timestamp \<longrightarrow> formatRelativeTime E now timestamp = js ''just now'')
   \<and> (truthy timestamp \<and> newDate E timestamp = Inl msg \<longrightarrow>
        formatRelativeTime E now timestamp = js ''recently'')
   \<and> (truthy timestamp \<and> newDate E timestamp = Inr (Some date) \<longrightarrow>
        ((now - date) div 1000 < 60 \<longrightarrow>
           formatRelativeTime E now timestamp = js ''just now'')
      \<and> (60 \<le> (now - date) div 1000 \<and> (now - date) div 1000 < 3600 \<longrightarrow>
           formatRelativeTime E now timestamp
             = integerToString ((now - date) div 1000 div 60) @ js '' minutes ago'')
      \<and> (3600 \<le> (now - date) div 1000 \<and> (now - date) div 1000 < 86400 \<longrightarrow>
           formatRelativeTime E now timestamp
             = integerToString ((now - date) div 1000 div 3600) @ js '' hours ago'')
      \<and> (86400 \<le> (now - date) div 1000 \<and> (now - date) div 1000 < 604800 \<longrightarrow>
           formatRelativeTime E now timestamp
             = integerToString ((now - date) div 1000 div 86400) @ js '' days ago'')
      \<and> (604800 \<le> (now - date) div 1000 \<longrightarrow>
           formatRelativeTime E now timestamp = formatDate E timestamp
         \<and> (civilFromDays ((date + localOffset E date) div 86400000) = (y, m, d) \<and> 1 \<le> y \<longrightarrow>
              formatRelativeTime E now timestamp
                = monthName m @ js '' '' @ integerToString d @ js '', '' @ integerToString y)))"
  by (simp add: formatRelativeTime_def formatDate_def toLocaleDateString_def longDate_def
      Let_def)

theorem formatRelativeTime_cases_witness:
  "formatRelativeTime sampleEngine sampleNow JUndefined = js ''just now''
   \<and> formatRelativeTime sampleEngine sampleNow unprintable = js ''recently''
   \<and> formatRelativeTime sampleEngine sampleNow (JNum (Finite 1699999970000)) = js ''just now''
   \<and> formatRelativeTime sampleEngine sampleNow (JNum (Finite 1699999880000))
       = js ''2 minutes ago''
   \<and> formatRelativeTime sampleEngine sampleNow (JNum (Finite 1699989200000))
       = js ''3 hours ago''
   \<and> formatRelativeTime sampleEngine sampleNow (JNum (Finite 1699568000000))
       = js ''5 days ago''
   \<and> formatRelativeTime sampleEngine sampleNow (JNum (Finite 1699308800000))
       = js ''November 6, 2023''"
proof -
  have p1: "\<not> truthy JUndefined"
    by simp
  have p2: "truthy unprintable" "newDate sampleEngine unprintable = Inl cannotConvertMessage"
    by (simp_all add: unprintable_def andThen_def)
  have p3: "truthy (JNum (Finite 1699999970000))"
    "newDate sampleEngine (JNum (Finite 1699999970000)) = Inr (Some 1699999970000)"
    "(sampleNow - 1699999970000) div 1000 < 60"
    by (simp_all add: sampleNow_def)
  have p4: "truthy (JNum (Finite 1699999880000))"
    "newDate sampleEngine (JNum (Finite 1699999880000)) = Inr (Some 1699999880000)"
    "60 \<le> (sampleNow - 1699999880000) div 1000" "(sampleNow - 1699999880000) div 1000 < 3600"
    by (simp_all add: sampleNow_def)
  have p5: "truthy (JNum (Finite 1699989200000))"
    "newDate sampleEngine (JNum (Finite 1699989200000)) = Inr (Some 1699989200000)"
    "3600 \<le> (sampleNow - 1699989200000) div 1000" "(sampleNow - 1699989200000) div 1000 < 86400"
    by (simp_all add: sampleNow_def)
  have p6: "truthy (JNum (Finite 1699568000000))"
    "newDate sampleEngine (JNum (Finite 1699568000000)) = Inr (Some 1699568000000)"
    "86400 \<le> (sampleNow - 1699568000000) div 1000"
    "(sampleNow - 1699568000000) div 1000 < 604800"
    by (simp_all add: sampleNow_def)
  have p7: "truthy (JNum (Finite 1699308800000))"
    "newDate sampleEngine (JNum (Finite 1699308800000)) = Inr (Some 1699308800000)"
    "604800 \<le> (sampleNow - 1699308800000) div 1000"
    "civilFromDays ((1699308800000 + localOffset sampleEngine 1699308800000) div 86400000)
       = (2023, 11, 6)"
    "1 \<le> (2023::int)"
    by (simp_all add: sampleNow_def sampleEngine_def civilFromDays_samples)
  have q: "(sampleNow - 1699999880000) div 1000 div 60 = 2"
    "(sampleNow - 1699989200000) div 1000 div 3600 = 3"
    "(sampleNow - 1699568000000) div 1000 div 86400 = 5"
    by (simp_all add: sampleNow_def)
  have i: "integerToString 2 = js ''2''" "integerToString 3 = js ''3''"
    "integerToString 5 = js ''5''" "integerToString 6 = js ''6''"
    "integerToString 2023 = js ''2023''"
    by (simp_all add: integerToString_def digits_samples)
  have j: "js ''2'' @ js '' minutes ago'' = js ''2 minutes ago''"
    "js ''3'' @ js '' hours ago'' = js ''3 hours ago''"
    "js ''5'' @ js '' days ago'' = js ''5 days ago''"
    "monthName 11 @ js '' '' @ js ''6'' @ js '', '' @ js ''2023'' = js ''November 6, 2023''"
    by (simp_all add: monthName_def js_def)
  have c1: "formatRelativeTime sampleEngine sampleNow (JUndefined) = js ''just now''"
    using formatRelativeTime_cases [where timestamp = "JUndefined" and E = sampleEngine
        and now = sampleNow and msg = cannotConvertMessage and date = 0
        and y = 0 and m = 0 and d = 0] p1
    by blast
  have c2: "formatRelativeTime sampleEngine sampleNow (unprintable) = js ''recently''"
    using formatRelativeTime_cases [where timestamp = "unprintable" and E = sampleEngine
        and now = sampleNow and msg = cannotConvertMessage and date = 0
        and y = 0 and m = 0 and d = 0] p2
    by blast
  have c3: "formatRelativeTime sampleEngine sampleNow (JNum (Finite 1699999970000)) = js ''just now''"
    using formatRelativeTime_cases [where timestamp = "JNum (Finite 1699999970000)" and E = sampleEngine
        and now = sampleNow and msg = cannotConvertMessage and date = 1699999970000
        and y = 0 and m = 0 and d = 0] p3
    by blast
  have c4: "formatRelativeTime sampleEngine sampleNow (JNum (Finite 1699999880000)) = integerToString ((sampleNow - 1699999880000) div 1000 div 60) @ js '' minutes ago''"
    using formatRelativeTime_cases [where timestamp = "JNum (Finite 1699999880000)" and E = sampleEngine
        and now = sampleNow and msg = cannotConvertMessage and date = 1699999880000
        and y = 0 and m = 0 and d = 0] p4
    by blast
  have c5: "formatRelativeTime sampleEngine sampleNow (JNum (Finite 1699989200000)) = integerToString ((sampleNow - 1699989200000) div 1000 div 3600) @ js '' hours ago''"
    using formatRelativeTime_cases [where timestamp = "JNum (Finite 1699989200000)" and E = sampleEngine
        and now = sampleNow and msg = cannotConvertMessage and date = 1699989200000
        and y = 0 and m = 0 and d = 0] p5
    by blast
  have c6: "formatRelativeTime sampleEngine sampleNow (JNum (Finite 1699568000000)) = integerToString ((sampleNow - 1699568000000) div 1000 div 86400) @ js '' days ago''"
    using formatRelativeTime_cases [where timestamp = "JNum (Finite 1699568000000)" and E = sampleEngine
        and now = sampleNow and msg = cannotConvertMessage and date = 1699568000000
        and y = 0 and m = 0 and d = 0] p6
    by blast
  have c7: "formatRelativeTime sampleEngine sampleNow (JNum (Finite 1699308800000)) = monthName 11 @ js '' '' @ integerToString 6 @ js '', '' @ integerToString 2023"
    using formatRelativeTime_cases [where timestamp = "JNum (Finite 1699308800000)" and E = sampleEngine
        and now = sampleNow and msg = cannotConvertMessage and date = 1699308800000
        and y = 2023 and m = 11 and d = 6] p7
    by blast
  from c1 c2 c3 c4 c5 c6 c7 show ?thesis
    by (simp only: q i j)
qed

lemma startsWith_prefix: "startsWith s t \<longleftrightarrow> prefix t s"
  by (induction s t rule: startsWith.induct) auto

lemma includesStr_sublist: "includesStr s t \<longleftrightarrow> sublist t s"
  by (induction s) (simp_all add: startsWith_prefix sublist_Cons_right)

text \<open>
  C9. For every recipe list, search value and category: the displayed list is the
  recipes, in their order, whose category is the selected one (when one is selected) and
  whose lower-cased name, ingredients or instructions contain the lower-cased, trimmed
  search value (when it is not empty); an empty search value with no category displays
  the whole list. Lower-casing is any function that keeps the empty string empty.
\<close>

theorem performSearch_filters:
  assumes lower_empty: "toLowerCase [] = []"
  shows "performSearch toLowerCase (Some searchValue) (Some selectedCategory) allRecipes
           = Some (filter (\<lambda>recipe.
                      (selectedCategory \<noteq> [] \<longrightarrow> category (snd recipe) = selectedCategory)
                      \<and> (searchValue \<noteq> [] \<longrightarrow>
                           sublist (trim (toLowerCase searchValue)) (toLowerCase (name (snd recipe)))
                         \<or> sublist (trim (toLowerCase searchValue))
                              (toLowerCase (ingredients (snd recipe)))
                         \<or> sublist (trim (toLowerCase searchValue))
                              (toLowerCase (instructions (snd recipe)))))
                    allRecipes,
                   length (filter (\<lambda>recipe.
                      (selectedCategory \<noteq> [] \<longrightarrow> category (snd recipe) = selectedCategory)
                      \<and> (searchValue \<noteq> [] \<longrightarrow>
                           sublist (trim (toLowerCase searchValue)) (toLowerCase (name (snd recipe)))
                         \<or> sublist (trim (toLowerCase searchValue))
                              (toLowerCase (ingredients (snd recipe)))
                         \<or> sublist (trim (toLowerCase searchValue))
                              (toLowerCase (instructions (snd recipe)))))
                    allRecipes),
                   length allRecipes)
         \<and> performSearch toLowerCase (Some []) (Some []) allRecipes
             = Some (allRecipes, length allRecipes, length allRecipes)"
proof -
  let ?t = "trim (toLowerCase searchValue)"
  have m: "searchMatch toLowerCase ?t r
             \<longleftrightarrow> sublist ?t (toLowerCase (name r)) \<or> sublist ?t (toLowerCase (ingredients r))
                  \<or> sublist ?t (toLowerCase (instructions r))"
    if "?t \<noteq> []" for r
    using that lower_empty
    by (cases "ingredients r = []"; cases "instructions r = []")
       (simp_all add: searchMatch_def Let_def includesStr_sublist)
  have e: "?t = []" if "searchValue = []"
    using that lower_empty by (simp add: trim_Nil)
  have second: "performSearch toLowerCase (Some []) (Some []) allRecipes
                  = Some (allRecipes, length allRecipes, length allRecipes)"
    by (simp add: performSearch_def lower_empty trim_Nil)
  have first: "performSearch toLowerCase (Some searchValue) (Some selectedCategory) allRecipes
           = Some (filter (\<lambda>recipe.
                      (selectedCategory \<noteq> [] \<longrightarrow> category (snd recipe) = selectedCategory)
                      \<and> (searchValue \<noteq> [] \<longrightarrow>
                           sublist ?t (toLowerCase (name (snd recipe)))
                         \<or> sublist ?t (toLowerCase (ingredients (snd recipe)))
                         \<or> sublist ?t (toLowerCase (instructions (snd recipe)))))
                    allRecipes,
                   length (filter (\<lambda>recipe.
                      (selectedCategory \<noteq> [] \<longrightarrow> category (snd recipe) = selectedCategory)
                      \<and> (searchValue \<noteq> [] \<longrightarrow>
                           sublist ?t (toLowerCase (name (snd recipe)))
                         \<or> sublist ?t (toLowerCase (ingredients (snd recipe)))
                         \<or> sublist ?t (toLowerCase (instructions (snd recipe)))))
                    allRecipes),
                   length allRecipes)"
  proof (cases "?t = []")
    case True
    then show ?thesis
      by (simp add: performSearch_def Let_def)
  next
    case False
    then have "searchValue \<noteq> []" using e by blast
    with False show ?thesis
      by (simp add: performSearch_def Let_def m cong: filter_cong)
  qed
  from first second show ?thesis by (rule conjI)
qed


lemma asciiLower_Nil: "asciiLower [] = []"
  by (simp add: asciiLower_def)

lemma sample_search_term: "trim (asciiLower (js ''SIMMER '')) = js ''simmer''"
  by (simp add: asciiLower_def trim_def isWhiteSpace_def js_def)

lemma sample_lowered:
  "asciiLower (js ''Pie'') = js ''pie''"
  "asciiLower (js ''Stew'') = js ''stew''"
  "asciiLower (js ''flour'') = js ''flour''"
  "asciiLower (js ''Mix and bake'') = js ''mix and bake''"
  "asciiLower (js ''Simmer slowly'') = js ''simmer slowly''"
  by (simp_all add: asciiLower_def js_def)

lemma sample_includes:
  "\<not> sublist (js ''simmer'') (js ''pie'')"
  "\<not> sublist (js ''simmer'') (js ''stew'')"
  "\<not> sublist (js ''simmer'') (js ''flour'')"
  "\<not> sublist (js ''simmer'') (js ''mix and bake'')"
  "sublist (js ''simmer'') (js ''simmer slowly'')"
  unfolding includesStr_sublist [symmetric]
  by (simp_all add: js_def)

theorem performSearch_filters_witness:
  "asciiLower [] = []
   \<and> performSearch asciiLower (Some (js ''SIMMER '')) (Some []) (recipes sampleStore)
       = Some ([(js ''r2'', sampleRecipe ''Stew'' ''main'' ''Simmer slowly'' 2000)], 1, 2)
   \<and> performSearch asciiLower (Some []) (Some []) (recipes sampleStore)
       = Some (recipes sampleStore, 2, 2)"
  using performSearch_filters [where toLowerCase = asciiLower and searchValue = "js ''SIMMER ''"
      and selectedCategory = "[]" and allRecipes = "recipes sampleStore"]
  by (simp add: asciiLower_Nil sample_search_term js_eq_Nil sampleStore_def sampleRecipe_def
      sample_lowered sample_includes)

end
